theory Spec2Isabelle
  imports Complex_Main "HOL-Library.Sublist" "HOL-Library.Word"
begin

section \<open>Python values used by the three service modules\<close>

text \<open>
  Python \<open>str\<close> is modelled as \<open>string\<close> (one \<open>char\<close> per character), \<open>bytes\<close> as a
  list of 8-bit words, \<open>int\<close> as \<open>int\<close>. \<open>Optional[T]\<close> is \<open>T option\<close>; a parameter
  annotated \<open>str\<close> is a \<open>string\<close>. Truthiness (\<open>if x\<close>, \<open>not x\<close>, \<open>a or b\<close>) is written
  out: \<open>None\<close>, the empty string, empty bytes and the empty list are falsy.
\<close>

type_synonym bytes = "8 word list"

definition truthy :: "'a list option \<Rightarrow> bool" where
  "truthy x = (case x of None \<Rightarrow> False | Some v \<Rightarrow> v \<noteq> [])"

text \<open>Slices \<open>s[:n]\<close> and \<open>s[i:]\<close> with Python's treatment of negative and large bounds.\<close>

definition slice_to :: "int \<Rightarrow> 'a list \<Rightarrow> 'a list" where
  "slice_to n xs =
     (let len = int (length xs);
          stop = (if n < 0 then max 0 (len + n) else min n len)
      in take (nat stop) xs)"

definition slice_from :: "int \<Rightarrow> 'a list \<Rightarrow> 'a list" where
  "slice_from i xs =
     (let len = int (length xs);
          start = (if i < 0 then max 0 (len + i) else min i len)
      in drop (nat start) xs)"

subsection \<open>\<open>_mask_key\<close> (erase_foreground.py 11-14, hd_image_generation.py 10-13)\<close>

definition mask_key :: "string option \<Rightarrow> string" where
  "mask_key key =
     (if \<not> truthy key then ''<no-key>''
      else slice_to 4 (the key) @ ''...'' @ slice_from (- 4) (the key))"

subsection \<open>Text formatting used by the f-strings\<close>

function str_nat :: "nat \<Rightarrow> string" where
  "str_nat n =
     (if n < 10 then [''0123456789'' ! n]
      else str_nat (n div 10) @ [''0123456789'' ! (n mod 10)])"
  by pat_completeness auto
termination
  by (relation "measure (\<lambda>n. n)") auto

declare str_nat.simps [simp del]

definition str_int :: "int \<Rightarrow> string" where
  "str_int i = (if i < 0 then ''-'' @ str_nat (nat (- i)) else str_nat (nat i))"

text \<open>
  \<open>{x:.1f}\<close>: one decimal, the exact value rounded half to even. The only values formatted
  are \<open>1.0 * 1.5 ** 1\<close> and \<open>1.0 * 1.5 ** 2\<close>, which binary floating point represents
  exactly, so the durations are modelled as rationals.
\<close>

definition round_half_even :: "rat \<Rightarrow> int" where
  "round_half_even x =
     (let f = \<lfloor>x\<rfloor>; d = x - of_int f
      in if d < 1 / 2 then f else if 1 / 2 < d then f + 1
         else if even f then f else f + 1)"

definition fmt_1f :: "rat \<Rightarrow> string" where
  "fmt_1f x =
     (let t = round_half_even (\<bar>x\<bar> * 10)
      in (if x < 0 then ''-'' else []) @ str_int (t div 10) @ ''.'' @ str_int (t mod 10))"

text \<open>U+2192, the arrow in two of the log lines, as its UTF-8 bytes.\<close>

definition arrow :: string where
  "arrow = [char_of (0xE2 :: nat), char_of (0x86 :: nat), char_of (0x92 :: nat)]"

text \<open>
  \<open>str.strip()\<close>: leading and trailing whitespace removed; the whitespace characters
  below code point 256 are 9-13, 28-32, 133 and 160.
\<close>

definition is_space :: "char \<Rightarrow> bool" where
  "is_space c = ((of_char c :: nat) \<in> {9, 10, 11, 12, 13, 28, 29, 30, 31, 32, 133, 160})"

definition strip :: "string \<Rightarrow> string" where
  "strip s = rev (dropWhile is_space (rev (dropWhile is_space s)))"

subsection \<open>\<open>base64.b64encode\<close>\<close>

definition b64char :: "nat \<Rightarrow> char" where
  "b64char i =
     ''ABCDEFGHIJKLMNOPQRSTUVWXYZabcdefghijklmnopqrstuvwxyz0123456789+/'' ! i"

fun b64encode :: "bytes \<Rightarrow> string" where
  "b64encode [] = []"
| "b64encode [a] =
     (let x = unat a
      in [b64char (x div 4), b64char ((x mod 4) * 16), CHR ''='', CHR ''=''])"
| "b64encode [a, b] =
     (let x = unat a; y = unat b
      in [b64char (x div 4), b64char ((x mod 4) * 16 + y div 16),
          b64char ((y mod 16) * 4), CHR ''=''])"
| "b64encode (a # b # c # rest) =
     (let x = unat a; y = unat b; z = unat c
      in [b64char (x div 4), b64char ((x mod 4) * 16 + y div 16),
          b64char ((y mod 16) * 4 + z div 64), b64char (z mod 64)] @ b64encode rest)"

subsection \<open>Floats, as far as \<open>max(1.0, min(float(x), 10.0))\<close> looks at them\<close>

datatype pyfloat = Finite rat | PosInf | NegInf | NaN

fun flt :: "pyfloat \<Rightarrow> pyfloat \<Rightarrow> bool" where
  "flt NaN _ = False"
| "flt _ NaN = False"
| "flt (Finite a) (Finite b) = (a < b)"
| "flt _ NegInf = False"
| "flt PosInf _ = False"
| "flt NegInf _ = True"
| "flt _ PosInf = True"

text \<open>
  Python's two-argument \<open>min(a, b)\<close> keeps \<open>a\<close> unless \<open>b < a\<close>, and \<open>max(a, b)\<close> keeps
  \<open>a\<close> unless \<open>b > a\<close>; with a NaN every comparison is false.
\<close>

definition fmin :: "pyfloat \<Rightarrow> pyfloat \<Rightarrow> pyfloat" where
  "fmin a b = (if flt b a then b else a)"

definition fmax :: "pyfloat \<Rightarrow> pyfloat \<Rightarrow> pyfloat" where
  "fmax a b = (if flt a b then b else a)"

section \<open>The HTTP library as the code sees it\<close>

datatype jval =
    JStr string | JInt int | JBool bool | JFloat pyfloat
  | JInts "int list" | JStrs "string list"

type_synonym headers = "string \<rightharpoonup> string"
type_synonym payload = "string \<rightharpoonup> jval"

text \<open>The arguments of one \<open>requests.post\<close> call; \<open>timeout = None\<close> when none is passed.\<close>

record request =
  url :: string
  headers :: headers
  json :: payload
  timeout :: "nat option"

text \<open>
  Exceptions of the \<open>requests\<close> library. \<open>HTTPError\<close>, \<open>ConnectionError\<close>, \<open>Timeout\<close> and
  \<open>JSONDecodeError\<close> are subclasses of \<open>requests.RequestException\<close>.
  \<open>requests.exceptions.JSONDecodeError\<close>, which \<open>Response.json()\<close> raises since requests
  2.27, derives from \<open>InvalidJSONError\<close> (a \<open>RequestException\<close>) and from
  \<open>json.JSONDecodeError\<close> (a \<open>ValueError\<close>); older versions raise a plain \<open>ValueError\<close>.
  An \<open>except\<close> clause catches by \<open>isinstance\<close>, the clauses tried in source order.
\<close>

datatype exc_class = HTTPError | ConnectionError | Timeout | JSONDecodeError | ValueError

fun is_RequestException :: "exc_class \<Rightarrow> bool" where
  "is_RequestException ValueError = False"
| "is_RequestException _ = True"

fun is_ValueError :: "exc_class \<Rightarrow> bool" where
  "is_ValueError JSONDecodeError = True"
| "is_ValueError ValueError = True"
| "is_ValueError _ = False"

text \<open>
  An exception: its class, its \<open>str()\<close>, and for an \<open>HTTPError\<close> the status code and body
  text of the response it carries.
\<close>

datatype exc = Exc (exc_cls: exc_class) (exc_str: string) (exc_response: "(int \<times> string) option")

record 'j response =
  status_code :: int
  resp_text :: string
  http_error_msg :: string
  json_result :: "exc + 'j"

datatype 'j outcome = PostRaises exc | PostReturns "'j response"

text \<open>\<open>Response.raise_for_status()\<close> raises \<open>HTTPError\<close> for a status in [400, 600).\<close>

definition raise_for_status :: "'j response \<Rightarrow> exc option" where
  "raise_for_status r =
     (if 400 \<le> status_code r \<and> status_code r < 600
      then Some (Exc HTTPError (http_error_msg r) (Some (status_code r, resp_text r)))
      else None)"

text \<open>
  The body of the \<open>try\<close> block of the two retrying functions after the log line:
  \<open>requests.post\<close>, \<open>raise_for_status()\<close>, \<open>return response.json()\<close>.
\<close>

definition post_json :: "'j outcome \<Rightarrow> exc + 'j" where
  "post_json out =
     (case out of
        PostRaises e \<Rightarrow> Inl e
      | PostReturns r \<Rightarrow>
          (case raise_for_status r of Some e \<Rightarrow> Inl e | None \<Rightarrow> json_result r))"

text \<open>
  What a call does besides returning: the \<open>print\<close> calls (with their arguments), the POST
  requests and the sleeps, in order. What it raises is a value.
\<close>

datatype parg = PStr string | PInt int | PHeaders headers | PPayload payload

datatype event = Print "parg list" | Post request | Sleep rat

datatype raised = RaiseValueError string | RaiseException string

fun raised_msg :: "raised \<Rightarrow> string" where
  "raised_msg (RaiseValueError m) = m"
| "raised_msg (RaiseException m) = m"

definition str_last_exc :: "exc option \<Rightarrow> string" where
  "str_last_exc e = (case e of None \<Rightarrow> ''None'' | Some x \<Rightarrow> exc_str x)"

text \<open>\<open>getattr(http_err.response, "status_code", None)\<close> and \<open>getattr(..., "text", "")\<close>.\<close>

definition exc_status :: "exc \<Rightarrow> int option" where
  "exc_status e = map_option fst (exc_response e)"

definition exc_text :: "exc \<Rightarrow> string" where
  "exc_text e = (case exc_response e of None \<Rightarrow> [] | Some (_, t) \<Rightarrow> t)"

text \<open>\<open>status and 400 <= status < 500 and status != 429\<close>\<close>

definition client_error :: "int option \<Rightarrow> bool" where
  "client_error status =
     (case status of None \<Rightarrow> False
      | Some s \<Rightarrow> s \<noteq> 0 \<and> 400 \<le> s \<and> s < 500 \<and> s \<noteq> 429)"

fun posts :: "event list \<Rightarrow> request list" where
  "posts [] = []"
| "posts (Post r # es) = r # posts es"
| "posts (_ # es) = posts es"

fun sleeps :: "event list \<Rightarrow> rat list" where
  "sleeps [] = []"
| "sleeps (Sleep d # es) = d # sleeps es"
| "sleeps (_ # es) = sleeps es"

fun prints :: "event list \<Rightarrow> parg list list" where
  "prints [] = []"
| "prints (Print a # es) = a # prints es"
| "prints (_ # es) = prints es"

section \<open>services/erase_foreground.py\<close>

definition DEFAULT_TIMEOUT :: nat where "DEFAULT_TIMEOUT = 15"
definition RETRY_COUNT :: nat where "RETRY_COUNT = 2"
definition RETRY_BACKOFF :: rat where "RETRY_BACKOFF = 3 / 2"

text \<open>
  The retry loop (lines 60-115). \<open>env a\<close> is what the library does at the POST of attempt
  \<open>a\<close>. The loop variables are \<open>attempt\<close> and \<open>last_exc\<close>; \<open>backoff\<close> stays \<open>1.0\<close>.
\<close>

function erase_foreground_loop ::
  "(nat \<Rightarrow> 'j outcome) \<Rightarrow> request \<Rightarrow> string \<Rightarrow> nat \<Rightarrow> exc option
     \<Rightarrow> event list \<times> (raised + 'j)" where
  "erase_foreground_loop env req api_key attempt last_exc =
     (if attempt \<le> RETRY_COUNT then
        (let started =
               [Print [PStr (''[erase_foreground] Request '' @ arrow @ '' '' @ url req
                             @ '' attempt='' @ str_nat attempt
                             @ '' api_key='' @ mask_key (Some api_key))],
                Post req]
         in case post_json (env attempt) of
              Inr j \<Rightarrow> (started, Inr j)
            | Inl e \<Rightarrow>
                if exc_cls e = HTTPError \<and> client_error (exc_status e) then
                  (started,
                   Inl (RaiseException (''Erase foreground failed (HTTP ''
                          @ str_int (the (exc_status e)) @ ''): '' @ exc_text e)))
                else if is_RequestException (exc_cls e) then
                  (let attempt' = attempt + 1;
                       sleep_time = 1 * (RETRY_BACKOFF ^ attempt');
                       retry =
                         (if attempt' \<le> RETRY_COUNT then
                            [Print [PStr (''[erase_foreground] transient error: '' @ exc_str e
                                          @ ''. Retrying in '' @ fmt_1f sleep_time @ ''s...'')],
                             Sleep sleep_time]
                          else []);
                       (rest, res) =
                         erase_foreground_loop env req api_key attempt' (Some e)
                   in (started @ retry @ rest, res))
                else
                  (started, Inl (RaiseException (''Non-JSON response: '' @ exc_str e))))
      else
        ([], Inl (RaiseException (''Erase foreground failed after ''
                    @ str_nat (RETRY_COUNT + 1) @ '' attempts: '' @ str_last_exc last_exc))))"
  by pat_completeness auto
termination
  by (relation "measure (\<lambda>(env, req, api_key, attempt, last_exc). Suc RETRY_COUNT - attempt)")
     auto

declare erase_foreground_loop.simps [simp del]

definition erase_foreground ::
  "string \<Rightarrow> bytes option \<Rightarrow> string option \<Rightarrow> bool \<Rightarrow> (nat \<Rightarrow> 'j outcome)
     \<Rightarrow> event list \<times> (raised + 'j)" where
  "erase_foreground api_key image_data image_url content_moderation env =
     (if api_key = [] then ([], Inl (RaiseValueError ''API key is missing''))
      else if \<not> (truthy image_data \<or> truthy image_url) then
        ([], Inl (RaiseValueError ''Either image_data or image_url must be provided''))
      else
        (let url = ''https://engine.prod.bria-api.com/v1/erase_foreground'';
             headers = [''Accept'' \<mapsto> ''application/json'',
                        ''Content-Type'' \<mapsto> ''application/json'',
                        ''api_token'' \<mapsto> api_key,
                        ''Authorization'' \<mapsto> ''Bearer '' @ api_key];
             data = [''content_moderation'' \<mapsto> JBool content_moderation];
             data = (if truthy image_url then data(''image_url'' \<mapsto> JStr (the image_url))
                     else data(''file'' \<mapsto> JStr (b64encode (the image_data))))
         in erase_foreground_loop env
              \<lparr>url = url, headers = headers, json = data, timeout = Some DEFAULT_TIMEOUT\<rparr>
              api_key 0 None))"

section \<open>services/hd_image_generation.py\<close>

text \<open>
  The module has its own \<open>DEFAULT_TIMEOUT = 15\<close>, \<open>RETRY_COUNT = 2\<close>, \<open>RETRY_BACKOFF = 1.5\<close>
  and \<open>_mask_key\<close>, equal to those of erase_foreground.py. The keyword arguments are a
  record; \<open>hd_defaults\<close> holds the defaults of the signature.
\<close>

record hd_args =
  hd_prompt :: string
  hd_api_key :: string
  hd_model_version :: string
  hd_num_results :: int
  hd_aspect_ratio :: string
  hd_sync :: bool
  hd_seed :: "int option"
  hd_negative_prompt :: "string option"
  hd_steps_num :: "int option"
  hd_text_guidance_scale :: "pyfloat option"
  hd_medium :: "string option"
  hd_prompt_enhancement :: bool
  hd_enhance_image :: bool
  hd_content_moderation :: bool
  hd_ip_signal :: bool

definition hd_defaults :: "string \<Rightarrow> string \<Rightarrow> hd_args" where
  "hd_defaults prompt api_key =
     \<lparr>hd_prompt = prompt, hd_api_key = api_key, hd_model_version = ''2.2'',
      hd_num_results = 1, hd_aspect_ratio = ''1:1'', hd_sync = True, hd_seed = None,
      hd_negative_prompt = None, hd_steps_num = None, hd_text_guidance_scale = None,
      hd_medium = None, hd_prompt_enhancement = False, hd_enhance_image = False,
      hd_content_moderation = False, hd_ip_signal = False\<rparr>"

text \<open>Lines 36-60: the payload.\<close>

definition hd_payload :: "hd_args \<Rightarrow> payload" where
  "hd_payload a =
     (let data = [''prompt'' \<mapsto> JStr (hd_prompt a),
                  ''num_results'' \<mapsto> JInt (max 1 (min (hd_num_results a) 4)),
                  ''sync'' \<mapsto> JBool (hd_sync a)];
          data = (if truthy (hd_negative_prompt a)
                  then data(''negative_prompt'' \<mapsto> JStr (the (hd_negative_prompt a)))
                  else data);
          data = (if hd_aspect_ratio a \<noteq> []
                  then data(''aspect_ratio'' \<mapsto> JStr (hd_aspect_ratio a)) else data);
          data = (case hd_seed a of None \<Rightarrow> data
                  | Some s \<Rightarrow> data(''seed'' \<mapsto> JInt s));
          data = (case hd_steps_num a of None \<Rightarrow> data
                  | Some s \<Rightarrow> data(''steps_num'' \<mapsto> JInt (max 20 (min s 50))));
          data = (case hd_text_guidance_scale a of None \<Rightarrow> data
                  | Some g \<Rightarrow>
                      data(''text_guidance_scale'' \<mapsto>
                             JFloat (fmax (Finite 1) (fmin g (Finite 10)))));
          data = (if truthy (hd_medium a)
                  then data(''medium'' \<mapsto> JStr (the (hd_medium a))) else data);
          data = (if hd_prompt_enhancement a
                  then data(''prompt_enhancement'' \<mapsto> JBool True) else data);
          data = (if hd_enhance_image a
                  then data(''enhance_image'' \<mapsto> JBool True) else data);
          data = (if hd_content_moderation a
                  then data(''content_moderation'' \<mapsto> JBool True) else data);
          data = (if hd_ip_signal a then data(''ip_signal'' \<mapsto> JBool True) else data)
      in data)"

text \<open>Lines 64-72: the headers.\<close>

definition hd_headers :: "string \<Rightarrow> headers" where
  "hd_headers api_key =
     (let headers = [''Accept'' \<mapsto> ''application/json'',
                     ''Content-Type'' \<mapsto> ''application/json'']
      in if api_key \<noteq> []
         then headers(''api_token'' \<mapsto> api_key, ''Authorization'' \<mapsto> ''Bearer '' @ api_key)
         else headers)"

text \<open>Lines 75-109: the retry loop.\<close>

function generate_hd_image_loop ::
  "(nat \<Rightarrow> 'j outcome) \<Rightarrow> request \<Rightarrow> string \<Rightarrow> nat \<Rightarrow> exc option
     \<Rightarrow> event list \<times> (raised + 'j)" where
  "generate_hd_image_loop env req api_key attempt last_exc =
     (if attempt \<le> RETRY_COUNT then
        (let started =
               [Print [PStr (''[generate_hd_image] Request to '' @ url req
                             @ '' attempt='' @ str_nat attempt
                             @ '' api_key='' @ mask_key (Some api_key))],
                Post req]
         in case post_json (env attempt) of
              Inr j \<Rightarrow> (started, Inr j)
            | Inl e \<Rightarrow>
                if exc_cls e = HTTPError \<and> client_error (exc_status e) then
                  (started,
                   Inl (RaiseException (''HD image generation failed (HTTP ''
                          @ str_int (the (exc_status e)) @ ''): '' @ exc_text e)))
                else if is_RequestException (exc_cls e) then
                  (let attempt' = attempt + 1;
                       sleep_time = 1 * (RETRY_BACKOFF ^ attempt');
                       retry =
                         (if attempt' \<le> RETRY_COUNT then
                            [Print [PStr (''[generate_hd_image] transient error: '' @ exc_str e
                                          @ ''. Retrying in '' @ fmt_1f sleep_time @ ''s...'')],
                             Sleep sleep_time]
                          else []);
                       (rest, res) =
                         generate_hd_image_loop env req api_key attempt' (Some e)
                   in (started @ retry @ rest, res))
                else
                  (started,
                   Inl (RaiseException (''HD image generation returned non-JSON response: ''
                          @ exc_str e))))
      else
        ([], Inl (RaiseException (''HD image generation failed after ''
                    @ str_nat (RETRY_COUNT + 1) @ '' attempts: '' @ str_last_exc last_exc))))"
  by pat_completeness auto
termination
  by (relation "measure (\<lambda>(env, req, api_key, attempt, last_exc). Suc RETRY_COUNT - attempt)")
     auto

declare generate_hd_image_loop.simps [simp del]

definition generate_hd_image ::
  "hd_args \<Rightarrow> (nat \<Rightarrow> 'j outcome) \<Rightarrow> event list \<times> (raised + 'j)" where
  "generate_hd_image a env =
     (if hd_prompt a = [] then
        ([], Inl (RaiseValueError ''Prompt is required for image generation''))
      else
        (let data = hd_payload a;
             url = ''https://engine.prod.bria-api.com/v1/text-to-image/hd/''
                   @ hd_model_version a;
             headers = hd_headers (hd_api_key a)
         in generate_hd_image_loop env
              \<lparr>url = url, headers = headers, json = data, timeout = Some DEFAULT_TIMEOUT\<rparr>
              (hd_api_key a) 0 None))"

section \<open>services/lifestyle_shot.py\<close>

record ls_args =
  ls_api_key :: string
  ls_image_data :: bytes
  ls_scene_description :: string
  ls_placement_type :: string
  ls_num_results :: int
  ls_sync :: bool
  ls_fast :: bool
  ls_optimize_description :: bool
  ls_original_quality :: bool
  ls_exclude_elements :: "string option"
  ls_shot_size :: "int list"
  ls_manual_placement_selection :: "string list"
  ls_padding_values :: "int list"
  ls_foreground_image_size :: "int list option"
  ls_foreground_image_location :: "int list option"
  ls_force_rmbg :: bool
  ls_content_moderation :: bool
  ls_sku :: "string option"

definition ls_defaults :: "string \<Rightarrow> bytes \<Rightarrow> string \<Rightarrow> ls_args" where
  "ls_defaults api_key image_data scene_description =
     \<lparr>ls_api_key = api_key, ls_image_data = image_data,
      ls_scene_description = scene_description, ls_placement_type = ''original'',
      ls_num_results = 4, ls_sync = False, ls_fast = True, ls_optimize_description = True,
      ls_original_quality = False, ls_exclude_elements = None, ls_shot_size = [1000, 1000],
      ls_manual_placement_selection = [''upper_left''], ls_padding_values = [0, 0, 0, 0],
      ls_foreground_image_size = None, ls_foreground_image_location = None,
      ls_force_rmbg = False, ls_content_moderation = False, ls_sku = None\<rparr>"

text \<open>Lines 31-35: the headers.\<close>

definition ls_headers :: "string \<Rightarrow> headers" where
  "ls_headers api_key =
     [''api_token'' \<mapsto> strip api_key,
      ''Accept'' \<mapsto> ''application/json'',
      ''Content-Type'' \<mapsto> ''application/json'']"

text \<open>Lines 38-73: the payload.\<close>

definition ls_payload :: "ls_args \<Rightarrow> payload" where
  "ls_payload a =
     (let image_base64 = b64encode (ls_image_data a);
          data = [''file'' \<mapsto> JStr image_base64,
                  ''scene_description'' \<mapsto> JStr (ls_scene_description a),
                  ''placement_type'' \<mapsto> JStr (ls_placement_type a),
                  ''num_results'' \<mapsto> JInt (ls_num_results a),
                  ''sync'' \<mapsto> JBool (ls_sync a),
                  ''fast'' \<mapsto> JBool (ls_fast a),
                  ''optimize_description'' \<mapsto> JBool (ls_optimize_description a),
                  ''original_quality'' \<mapsto> JBool (ls_original_quality a),
                  ''force_rmbg'' \<mapsto> JBool (ls_force_rmbg a),
                  ''content_moderation'' \<mapsto> JBool (ls_content_moderation a)];
          data = (if truthy (ls_exclude_elements a) \<and> \<not> ls_fast a
                  then data(''exclude_elements'' \<mapsto> JStr (the (ls_exclude_elements a)))
                  else data);
          data = (if ls_placement_type a
                       \<in> set [''automatic'', ''manual_placement'', ''custom_coordinates'']
                  then data(''shot_size'' \<mapsto> JInts (ls_shot_size a)) else data);
          data = (if ls_placement_type a = ''manual_placement''
                  then data(''manual_placement_selection'' \<mapsto>
                              JStrs (ls_manual_placement_selection a))
                  else data);
          data = (if ls_placement_type a = ''manual_padding''
                  then data(''padding_values'' \<mapsto> JInts (ls_padding_values a)) else data);
          data = (if ls_placement_type a = ''custom_coordinates'' then
                    (let data = (if truthy (ls_foreground_image_size a)
                                 then data(''foreground_image_size'' \<mapsto>
                                             JInts (the (ls_foreground_image_size a)))
                                 else data)
                     in if truthy (ls_foreground_image_location a)
                        then data(''foreground_image_location'' \<mapsto>
                                    JInts (the (ls_foreground_image_location a)))
                        else data)
                  else data);
          data = (if truthy (ls_sku a) then data(''sku'' \<mapsto> JStr (the (ls_sku a))) else data)
      in data)"

text \<open>
  Lines 75-89: one POST, passed no timeout, inside \<open>try\<close>; \<open>except Exception\<close> wraps
  whatever is raised. \<open>env 0\<close> is what the library does at that POST.
\<close>

definition lifestyle_shot_by_text ::
  "ls_args \<Rightarrow> (nat \<Rightarrow> 'j outcome) \<Rightarrow> event list \<times> (raised + 'j)" where
  "lifestyle_shot_by_text a env =
     (let url = ''https://engine.prod.bria-api.com/v1/product/lifestyle_shot_by_text'';
          headers = ls_headers (ls_api_key a);
          data = ls_payload a;
          req = \<lparr>url = url, headers = headers, json = data, timeout = None\<rparr>;
          started = [Print [PStr (''Sending Request '' @ arrow @ '' lifestyle_shot_by_text'')],
                     Print [PStr ''Headers:'', PHeaders headers],
                     Print [PStr ''Payload:'', PPayload data],
                     Post req];
          failed = (\<lambda>e. Inl (RaiseException (''Lifestyle shot generation failed: ''
                                                @ exc_str e)))
      in case env 0 of
           PostRaises e \<Rightarrow> (started, failed e)
         | PostReturns r \<Rightarrow>
             (case raise_for_status r of
                Some e \<Rightarrow> (started, failed e)
              | None \<Rightarrow>
                  (let printed = started @ [Print [PStr ''Status:'', PInt (status_code r)],
                                            Print [PStr ''Response:'', PStr (resp_text r)]]
                   in case json_result r of
                        Inl e \<Rightarrow> (printed, failed e)
                      | Inr j \<Rightarrow> (printed, Inr j))))"

section \<open>Error classes of the specification, simulated responses\<close>

text \<open>
  The specification's transient failures: connection error, timeout, HTTP 429, HTTP status
  in [500, 600). \<open>describe\<close> is the \<open>str()\<close> of the exception such an attempt ends in.
\<close>

fun transient :: "'j outcome \<Rightarrow> bool" where
  "transient (PostRaises e) = (exc_cls e = ConnectionError \<or> exc_cls e = Timeout)"
| "transient (PostReturns r) =
     (status_code r = 429 \<or> (500 \<le> status_code r \<and> status_code r < 600))"

fun describe :: "'j outcome \<Rightarrow> string" where
  "describe (PostRaises e) = exc_str e"
| "describe (PostReturns r) = http_error_msg r"

text \<open>The same outcome at every attempt, and the responses used as concrete inputs.\<close>

definition repeated :: "'j outcome \<Rightarrow> nat \<Rightarrow> 'j outcome" where
  "repeated out attempt = out"

definition resp_429 :: "string outcome" where
  "resp_429 = PostReturns
     \<lparr>status_code = 429, resp_text = ''slow down'',
      http_error_msg = ''429 Client Error: Too Many Requests'',
      json_result = Inr ''slow down''\<rparr>"

definition resp_404 :: "string outcome" where
  "resp_404 = PostReturns
     \<lparr>status_code = 404, resp_text = ''no such page'',
      http_error_msg = ''404 Client Error: Not Found'',
      json_result = Inl (Exc ValueError ''Expecting value'' None)\<rparr>"


definition resp_200 :: "string outcome" where
  "resp_200 = PostReturns
     \<lparr>status_code = 200, resp_text = ''{}'', http_error_msg = [],
      json_result = Inr ''{}''\<rparr>"

definition resp_200_html :: "exc_class \<Rightarrow> string outcome" where
  "resp_200_html cls = PostReturns
     \<lparr>status_code = 200, resp_text = ''<html>hello</html>'', http_error_msg = [],
      json_result = Inl (Exc cls ''Expecting value'' None)\<rparr>"

section \<open>Properties\<close>

subsection \<open>Traces and the library model\<close>

lemma posts_append: "posts (xs @ ys) = posts xs @ posts ys"
  by (induction xs rule: posts.induct) simp_all

lemma sleeps_append: "sleeps (xs @ ys) = sleeps xs @ sleeps ys"
  by (induction xs rule: sleeps.induct) simp_all

lemma prints_append: "prints (xs @ ys) = prints xs @ prints ys"
  by (induction xs rule: prints.induct) simp_all

lemma transient_post_json:
  assumes "transient out"
  shows "\<exists>e. post_json out = Inl e \<and> is_RequestException (exc_cls e)
             \<and> \<not> (exc_cls e = HTTPError \<and> client_error (exc_status e))
             \<and> exc_str e = describe out"
proof (cases out)
  case (PostRaises e)
  with assms show ?thesis by (auto simp: post_json_def)
next
  case (PostReturns r)
  with assms show ?thesis
    by (auto simp: post_json_def raise_for_status_def client_error_def exc_status_def)
qed

subsection \<open>The retry loop of \<open>erase_foreground\<close>, step by step\<close>

lemma erase_loop_exhausted:
  "RETRY_COUNT < a \<Longrightarrow>
   erase_foreground_loop env req k a le =
     ([], Inl (RaiseException (''Erase foreground failed after '' @ str_nat (RETRY_COUNT + 1)
                 @ '' attempts: '' @ str_last_exc le)))"
  by (simp add: erase_foreground_loop.simps)

lemma erase_loop_return:
  "a \<le> RETRY_COUNT \<Longrightarrow> post_json (env a) = Inr j \<Longrightarrow>
   \<exists>line. erase_foreground_loop env req k a le = ([Print [PStr line], Post req], Inr j)"
  by (subst erase_foreground_loop.simps) (simp add: Let_def)

lemma erase_loop_client_error:
  "a \<le> RETRY_COUNT \<Longrightarrow> post_json (env a) = Inl e \<Longrightarrow>
   exc_cls e = HTTPError \<Longrightarrow> client_error (exc_status e) \<Longrightarrow>
   \<exists>line. erase_foreground_loop env req k a le =
     ([Print [PStr line], Post req],
      Inl (RaiseException (''Erase foreground failed (HTTP '' @ str_int (the (exc_status e))
             @ ''): '' @ exc_text e)))"
  by (subst erase_foreground_loop.simps) (simp add: Let_def)

lemma erase_loop_decode:
  "a \<le> RETRY_COUNT \<Longrightarrow> post_json (env a) = Inl e \<Longrightarrow>
   \<not> is_RequestException (exc_cls e) \<Longrightarrow>
   \<exists>line. erase_foreground_loop env req k a le =
     ([Print [PStr line], Post req],
      Inl (RaiseException (''Non-JSON response: '' @ exc_str e)))"
  by (subst erase_foreground_loop.simps) (auto simp add: Let_def)

lemma erase_loop_retry:
  "a \<le> RETRY_COUNT \<Longrightarrow> post_json (env a) = Inl e \<Longrightarrow>
   \<not> (exc_cls e = HTTPError \<and> client_error (exc_status e)) \<Longrightarrow>
   is_RequestException (exc_cls e) \<Longrightarrow>
   \<exists>line line'. erase_foreground_loop env req k a le =
     ([Print [PStr line], Post req]
        @ (if Suc a \<le> RETRY_COUNT
           then [Print [PStr line'], Sleep (1 * RETRY_BACKOFF ^ Suc a)] else [])
        @ fst (erase_foreground_loop env req k (Suc a) (Some e)),
      snd (erase_foreground_loop env req k (Suc a) (Some e)))"
  by (subst erase_foreground_loop.simps) (auto simp add: Let_def split: prod.splits)


lemma erase_loop_cases:
  assumes "a \<le> RETRY_COUNT"
  obtains
    (return) line j where
      "erase_foreground_loop env req k a le = ([Print [PStr line], Post req], Inr j)"
  | (fail) line m where
      "erase_foreground_loop env req k a le = ([Print [PStr line], Post req], Inl m)"
  | (retry) line line' e where
      "erase_foreground_loop env req k a le =
         ([Print [PStr line], Post req]
            @ (if Suc a \<le> RETRY_COUNT
               then [Print [PStr line'], Sleep (1 * RETRY_BACKOFF ^ Suc a)] else [])
            @ fst (erase_foreground_loop env req k (Suc a) (Some e)),
          snd (erase_foreground_loop env req k (Suc a) (Some e)))"
proof (cases "post_json (env a)")
  case (Inr j)
  with assms erase_loop_return [of a env j req k le] show ?thesis
    using return by blast
next
  case (Inl e)
  show ?thesis
  proof (cases "exc_cls e = HTTPError \<and> client_error (exc_status e)")
    case True
    with assms Inl erase_loop_client_error [of a env e req k le] show ?thesis
      using fail by blast
  next
    case nce: False
    show ?thesis
    proof (cases "is_RequestException (exc_cls e)")
      case True
      with assms Inl nce erase_loop_retry [of a env e req k le] show ?thesis
        using retry by blast
    next
      case False
      with assms Inl erase_loop_decode [of a env e req k le] show ?thesis
        using fail by blast
    qed
  qed
qed

lemma erase_loop_posts_nonempty:
  "a \<le> RETRY_COUNT \<Longrightarrow> posts (fst (erase_foreground_loop env req k a le)) \<noteq> []"
  by (erule erase_loop_cases [of a env req k le]) (simp_all add: posts_append)

lemma erase_loop_posts_req:
  "set (posts (fst (erase_foreground_loop env req k a le))) \<subseteq> {req}"
proof (induction "Suc RETRY_COUNT - a" arbitrary: a le)
  case 0
  then have "RETRY_COUNT < a" by simp
  then show ?case by (simp add: erase_loop_exhausted)
next
  case (Suc n)
  then have a: "a \<le> RETRY_COUNT" and n: "n = Suc RETRY_COUNT - Suc a" by simp_all
  from a show ?case
  proof (cases rule: erase_loop_cases [of a env req k le])
    case (retry line line' e)
    with Suc.hyps(1) [OF n, of "Some e"] show ?thesis
      by (auto simp: posts_append)
  qed simp_all
qed

lemma erase_loop_sleeps:
  "sleeps (fst (erase_foreground_loop env req k a le)) =
     map (\<lambda>i. 1 * RETRY_BACKOFF ^ i)
       [Suc a ..< a + length (posts (fst (erase_foreground_loop env req k a le)))]"
proof (induction "Suc RETRY_COUNT - a" arbitrary: a le)
  case 0
  then have "RETRY_COUNT < a" by simp
  then show ?case by (simp add: erase_loop_exhausted)
next
  case (Suc n)
  then have a: "a \<le> RETRY_COUNT" and n: "n = Suc RETRY_COUNT - Suc a" by simp_all
  from a show ?case
  proof (cases rule: erase_loop_cases [of a env req k le])
    case (retry line line' e)
    let ?rest = "fst (erase_foreground_loop env req k (Suc a) (Some e))"
    note ih = Suc.hyps(1) [OF n, of "Some e"]
    show ?thesis
    proof (cases "Suc a \<le> RETRY_COUNT")
      case True
      then have "posts ?rest \<noteq> []" by (rule erase_loop_posts_nonempty)
      then have "Suc a < Suc a + length (posts ?rest)" by simp
      then have "[Suc a ..< Suc a + length (posts ?rest)]
                   = Suc a # [Suc (Suc a) ..< Suc a + length (posts ?rest)]"
        by (rule upt_conv_Cons)
      with retry True ih show ?thesis
        by (simp add: posts_append sleeps_append)
    next
      case False
      then have "RETRY_COUNT < Suc a" by simp
      then have "?rest = []" by (simp add: erase_loop_exhausted)
      with retry False show ?thesis by simp
    qed
  qed simp_all
qed

subsection \<open>The retry loop of \<open>generate_hd_image\<close>, step by step\<close>

lemma hd_loop_exhausted:
  "RETRY_COUNT < a \<Longrightarrow>
   generate_hd_image_loop env req k a le =
     ([], Inl (RaiseException (''HD image generation failed after '' @ str_nat (RETRY_COUNT + 1)
                 @ '' attempts: '' @ str_last_exc le)))"
  by (simp add: generate_hd_image_loop.simps)

lemma hd_loop_return:
  "a \<le> RETRY_COUNT \<Longrightarrow> post_json (env a) = Inr j \<Longrightarrow>
   \<exists>line. generate_hd_image_loop env req k a le = ([Print [PStr line], Post req], Inr j)"
  by (subst generate_hd_image_loop.simps) (simp add: Let_def)

lemma hd_loop_client_error:
  "a \<le> RETRY_COUNT \<Longrightarrow> post_json (env a) = Inl e \<Longrightarrow>
   exc_cls e = HTTPError \<Longrightarrow> client_error (exc_status e) \<Longrightarrow>
   \<exists>line. generate_hd_image_loop env req k a le =
     ([Print [PStr line], Post req],
      Inl (RaiseException (''HD image generation failed (HTTP '' @ str_int (the (exc_status e))
             @ ''): '' @ exc_text e)))"
  by (subst generate_hd_image_loop.simps) (simp add: Let_def)

lemma hd_loop_decode:
  "a \<le> RETRY_COUNT \<Longrightarrow> post_json (env a) = Inl e \<Longrightarrow>
   \<not> is_RequestException (exc_cls e) \<Longrightarrow>
   \<exists>line. generate_hd_image_loop env req k a le =
     ([Print [PStr line], Post req],
      Inl (RaiseException (''HD image generation returned non-JSON response: '' @ exc_str e)))"
  by (subst generate_hd_image_loop.simps) (auto simp add: Let_def)

lemma hd_loop_retry:
  "a \<le> RETRY_COUNT \<Longrightarrow> post_json (env a) = Inl e \<Longrightarrow>
   \<not> (exc_cls e = HTTPError \<and> client_error (exc_status e)) \<Longrightarrow>
   is_RequestException (exc_cls e) \<Longrightarrow>
   \<exists>line line'. generate_hd_image_loop env req k a le =
     ([Print [PStr line], Post req]
        @ (if Suc a \<le> RETRY_COUNT
           then [Print [PStr line'], Sleep (1 * RETRY_BACKOFF ^ Suc a)] else [])
        @ fst (generate_hd_image_loop env req k (Suc a) (Some e)),
      snd (generate_hd_image_loop env req k (Suc a) (Some e)))"
  by (subst generate_hd_image_loop.simps) (auto simp add: Let_def split: prod.splits)


lemma hd_loop_cases:
  assumes "a \<le> RETRY_COUNT"
  obtains
    (return) line j where
      "generate_hd_image_loop env req k a le = ([Print [PStr line], Post req], Inr j)"
  | (fail) line m where
      "generate_hd_image_loop env req k a le = ([Print [PStr line], Post req], Inl m)"
  | (retry) line line' e where
      "generate_hd_image_loop env req k a le =
         ([Print [PStr line], Post req]
            @ (if Suc a \<le> RETRY_COUNT
               then [Print [PStr line'], Sleep (1 * RETRY_BACKOFF ^ Suc a)] else [])
            @ fst (generate_hd_image_loop env req k (Suc a) (Some e)),
          snd (generate_hd_image_loop env req k (Suc a) (Some e)))"
proof (cases "post_json (env a)")
  case (Inr j)
  with assms hd_loop_return [of a env j req k le] show ?thesis
    using return by blast
next
  case (Inl e)
  show ?thesis
  proof (cases "exc_cls e = HTTPError \<and> client_error (exc_status e)")
    case True
    with assms Inl hd_loop_client_error [of a env e req k le] show ?thesis
      using fail by blast
  next
    case nce: False
    show ?thesis
    proof (cases "is_RequestException (exc_cls e)")
      case True
      with assms Inl nce hd_loop_retry [of a env e req k le] show ?thesis
        using retry by blast
    next
      case False
      with assms Inl hd_loop_decode [of a env e req k le] show ?thesis
        using fail by blast
    qed
  qed
qed

lemma hd_loop_posts_nonempty:
  "a \<le> RETRY_COUNT \<Longrightarrow> posts (fst (generate_hd_image_loop env req k a le)) \<noteq> []"
  by (erule hd_loop_cases [of a env req k le]) (simp_all add: posts_append)

lemma hd_loop_posts_req:
  "set (posts (fst (generate_hd_image_loop env req k a le))) \<subseteq> {req}"
proof (induction "Suc RETRY_COUNT - a" arbitrary: a le)
  case 0
  then have "RETRY_COUNT < a" by simp
  then show ?case by (simp add: hd_loop_exhausted)
next
  case (Suc n)
  then have a: "a \<le> RETRY_COUNT" and n: "n = Suc RETRY_COUNT - Suc a" by simp_all
  from a show ?case
  proof (cases rule: hd_loop_cases [of a env req k le])
    case (retry line line' e)
    with Suc.hyps(1) [OF n, of "Some e"] show ?thesis
      by (auto simp: posts_append)
  qed simp_all
qed

lemma hd_loop_sleeps:
  "sleeps (fst (generate_hd_image_loop env req k a le)) =
     map (\<lambda>i. 1 * RETRY_BACKOFF ^ i)
       [Suc a ..< a + length (posts (fst (generate_hd_image_loop env req k a le)))]"
proof (induction "Suc RETRY_COUNT - a" arbitrary: a le)
  case 0
  then have "RETRY_COUNT < a" by simp
  then show ?case by (simp add: hd_loop_exhausted)
next
  case (Suc n)
  then have a: "a \<le> RETRY_COUNT" and n: "n = Suc RETRY_COUNT - Suc a" by simp_all
  from a show ?case
  proof (cases rule: hd_loop_cases [of a env req k le])
    case (retry line line' e)
    let ?rest = "fst (generate_hd_image_loop env req k (Suc a) (Some e))"
    note ih = Suc.hyps(1) [OF n, of "Some e"]
    show ?thesis
    proof (cases "Suc a \<le> RETRY_COUNT")
      case True
      then have "posts ?rest \<noteq> []" by (rule hd_loop_posts_nonempty)
      then have "Suc a < Suc a + length (posts ?rest)" by simp
      then have "[Suc a ..< Suc a + length (posts ?rest)]
                   = Suc a # [Suc (Suc a) ..< Suc a + length (posts ?rest)]"
        by (rule upt_conv_Cons)
      with retry True ih show ?thesis
        by (simp add: posts_append sleeps_append)
    next
      case False
      then have "RETRY_COUNT < Suc a" by simp
      then have "?rest = []" by (simp add: hd_loop_exhausted)
      with retry False show ?thesis by simp
    qed
  qed simp_all
qed

subsection \<open>Masking\<close>

lemma slice_to_take: "slice_to 4 k = take 4 k"
  by (cases "length k \<le> 4") (simp_all add: slice_to_def Let_def min_def)

lemma slice_from_last: "slice_from (- 4) k = rev (take 4 (rev k))"
  by (simp add: slice_from_def Let_def max_def take_rev nat_diff_distrib')

lemma mask_key_short: "k \<noteq> [] \<Longrightarrow> length k \<le> 4 \<Longrightarrow> mask_key (Some k) = k @ ''...'' @ k"
  by (simp add: mask_key_def truthy_def slice_to_take slice_from_last)

text \<open>
  Claim C10. For a non-empty key, \<open>_mask_key\<close> is the first four characters, the literal
  \<open>...\<close> and the last four characters; for an empty or missing key it is \<open><no-key>\<close>.
  Hence a non-empty key of at most four characters occurs whole inside its own mask.
\<close>

theorem mask_key_spec:
  "(k \<noteq> [] \<longrightarrow> mask_key (Some k) = take 4 k @ ''...'' @ rev (take 4 (rev k)))
   \<and> mask_key (Some []) = ''<no-key>''
   \<and> mask_key None = ''<no-key>''
   \<and> (k \<noteq> [] \<and> length k \<le> 4 \<longrightarrow> sublist k (mask_key (Some k)))"
proof -
  have a: "k \<noteq> [] \<longrightarrow> mask_key (Some k) = take 4 k @ ''...'' @ rev (take 4 (rev k))"
    by (simp add: mask_key_def truthy_def slice_to_take slice_from_last)
  have b: "mask_key (Some []) = ''<no-key>''" "mask_key None = ''<no-key>''"
    by (simp_all add: mask_key_def truthy_def)
  have c: "k \<noteq> [] \<and> length k \<le> 4 \<longrightarrow> sublist k (mask_key (Some k))"
    by (simp add: mask_key_short)
  from a b c show ?thesis by blast
qed

theorem mask_key_spec_witness:
  "mask_key (Some ''abcd1234efgh'') = ''abcd...efgh''
   \<and> mask_key (Some ''abc'') = ''abc...abc''
   \<and> sublist ''abc'' (mask_key (Some ''abc''))"
proof -
  have "mask_key (Some ''abcd1234efgh'') = ''abcd...efgh''"
    using mask_key_spec [of "''abcd1234efgh''"] by simp
  moreover have "mask_key (Some ''abc'') = ''abc...abc''"
      and "sublist ''abc'' (mask_key (Some ''abc''))"
    using mask_key_spec [of "''abc''"] by simp_all
  ultimately show ?thesis by blast
qed

lemma erase_foreground_valid:
  "k \<noteq> [] \<Longrightarrow> truthy d \<or> truthy u \<Longrightarrow>
   \<exists>req. erase_foreground k d u c env = erase_foreground_loop env req k 0 None
       \<and> timeout req = Some DEFAULT_TIMEOUT
       \<and> headers req = [''Accept'' \<mapsto> ''application/json'',
                         ''Content-Type'' \<mapsto> ''application/json'',
                         ''api_token'' \<mapsto> k, ''Authorization'' \<mapsto> ''Bearer '' @ k]
       \<and> url req = ''https://engine.prod.bria-api.com/v1/erase_foreground''"
  unfolding erase_foreground_def Let_def
  by (simp only: if_False simp_thms) (rule exI, intro conjI, rule refl, simp_all)

lemma erase_foreground_invalid:
  "k = [] \<or> \<not> (truthy d \<or> truthy u) \<Longrightarrow>
   \<exists>m. erase_foreground k d u c env = ([], Inl (RaiseValueError m))"
  by (auto simp add: erase_foreground_def)

lemma generate_hd_image_valid:
  "hd_prompt a \<noteq> [] \<Longrightarrow>
   \<exists>req. generate_hd_image a env = generate_hd_image_loop env req (hd_api_key a) 0 None
       \<and> timeout req = Some DEFAULT_TIMEOUT
       \<and> headers req = hd_headers (hd_api_key a)
       \<and> json req = hd_payload a
       \<and> url req = ''https://engine.prod.bria-api.com/v1/text-to-image/hd/'' @ hd_model_version a"
  unfolding generate_hd_image_def Let_def
  by (simp only: if_False simp_thms) (rule exI, intro conjI, rule refl, simp_all)

lemma generate_hd_image_invalid:
  "hd_prompt a = [] \<Longrightarrow>
   generate_hd_image a env = ([], Inl (RaiseValueError ''Prompt is required for image generation''))"
  by (simp add: generate_hd_image_def)

lemma lifestyle_posts:
  "posts (fst (lifestyle_shot_by_text a env)) =
     [\<lparr>url = ''https://engine.prod.bria-api.com/v1/product/lifestyle_shot_by_text'',
       headers = ls_headers (ls_api_key a), json = ls_payload a, timeout = None\<rparr>]"
  by (simp add: lifestyle_shot_by_text_def Let_def posts_append
           split: outcome.splits option.splits sum.splits)

lemma lifestyle_sleeps: "sleeps (fst (lifestyle_shot_by_text a env)) = []"
  by (simp add: lifestyle_shot_by_text_def Let_def sleeps_append
           split: outcome.splits option.splits sum.splits)


lemma erase_foreground_posts_nonempty:
  "k \<noteq> [] \<Longrightarrow> truthy d \<or> truthy u \<Longrightarrow> posts (fst (erase_foreground k d u c env)) \<noteq> []"
  using erase_foreground_valid [of k d u c env] erase_loop_posts_nonempty [of 0 env _ k None]
  by auto

lemma generate_hd_image_posts_nonempty:
  "hd_prompt a \<noteq> [] \<Longrightarrow> posts (fst (generate_hd_image a env)) \<noteq> []"
  using generate_hd_image_valid [of a env] hd_loop_posts_nonempty [of 0 env _ "hd_api_key a" None]
  by auto

lemma erase_foreground_posts:
  "r \<in> set (posts (fst (erase_foreground k d u c env))) \<Longrightarrow>
   timeout r = Some DEFAULT_TIMEOUT
   \<and> headers r = [''Accept'' \<mapsto> ''application/json'',
                    ''Content-Type'' \<mapsto> ''application/json'',
                    ''api_token'' \<mapsto> k, ''Authorization'' \<mapsto> ''Bearer '' @ k]"
proof (cases "k \<noteq> [] \<and> (truthy d \<or> truthy u)")
  case True
  assume r: "r \<in> set (posts (fst (erase_foreground k d u c env)))"
  from True obtain req where
    "erase_foreground k d u c env = erase_foreground_loop env req k 0 None"
    "timeout req = Some DEFAULT_TIMEOUT"
    "headers req = [''Accept'' \<mapsto> ''application/json'',
                    ''Content-Type'' \<mapsto> ''application/json'',
                    ''api_token'' \<mapsto> k, ''Authorization'' \<mapsto> ''Bearer '' @ k]"
    using erase_foreground_valid [of k d u c env] by blast
  with r erase_loop_posts_req [of env req k 0 None] show ?thesis by auto
next
  case False
  assume r: "r \<in> set (posts (fst (erase_foreground k d u c env)))"
  with False erase_foreground_invalid [of k d u c env] show ?thesis by auto
qed

lemma generate_hd_image_posts:
  "r \<in> set (posts (fst (generate_hd_image a env))) \<Longrightarrow>
   timeout r = Some DEFAULT_TIMEOUT \<and> headers r = hd_headers (hd_api_key a)
   \<and> json r = hd_payload a"
proof (cases "hd_prompt a \<noteq> []")
  case True
  assume r: "r \<in> set (posts (fst (generate_hd_image a env)))"
  from True obtain req where
    "generate_hd_image a env = generate_hd_image_loop env req (hd_api_key a) 0 None"
    "timeout req = Some DEFAULT_TIMEOUT" "headers req = hd_headers (hd_api_key a)"
    "json req = hd_payload a"
    using generate_hd_image_valid [of a env] by blast
  with r hd_loop_posts_req [of env req "hd_api_key a" 0 None] show ?thesis by auto
next
  case False
  assume r: "r \<in> set (posts (fst (generate_hd_image a env)))"
  with False generate_hd_image_invalid [of a env] show ?thesis by auto
qed

subsection \<open>Per-attempt timeout\<close>

lemma retrying_posts_timeout:
  "(\<forall>r \<in> set (posts (fst (erase_foreground k d u c env))). timeout r = Some 15)
   \<and> (\<forall>r \<in> set (posts (fst (generate_hd_image a env))). timeout r = Some 15)"
  using erase_foreground_posts [of _ k d u c env] generate_hd_image_posts [of _ a env]
  by (auto simp: DEFAULT_TIMEOUT_def)

text \<open>
  Claim C9. Every POST is to be given a per-attempt timeout of 15. The two retrying
  functions do so (\<open>retrying_posts_timeout\<close>). \<open>lifestyle_shot_by_text\<close> does not: called
  with an ordinary key, image and scene description, its one POST is issued with no
  timeout at all.
\<close>

theorem lifestyle_post_has_no_timeout:
  "map timeout (posts (fst (lifestyle_shot_by_text
      (ls_defaults ''abcd1234efgh'' [0x89, 0x50, 0x4E, 0x47] ''a kitchen'') (repeated resp_200))))
   = [None]"
  by (simp add: lifestyle_posts)

subsection \<open>Request headers\<close>

text \<open>
  Claim C6, amended. Every POST of \<open>erase_foreground\<close> carries \<open>Accept\<close> and
  \<open>Content-Type: application/json\<close>, \<open>api_token\<close> with the credential and
  \<open>Authorization: Bearer\<close> with the same credential. \<open>generate_hd_image\<close> sends the two
  credential headers only for a non-empty credential. \<open>lifestyle_shot_by_text\<close> sends
  \<open>api_token\<close> with the stripped credential and no \<open>Authorization\<close> header.
\<close>

theorem post_headers:
  "(\<forall>r \<in> set (posts (fst (erase_foreground k d u c env))).
      headers r ''Accept'' = Some ''application/json''
      \<and> headers r ''Content-Type'' = Some ''application/json''
      \<and> headers r ''api_token'' = Some k
      \<and> headers r ''Authorization'' = Some (''Bearer '' @ k))
   \<and> (\<forall>r \<in> set (posts (fst (generate_hd_image a env))).
      headers r ''Accept'' = Some ''application/json''
      \<and> headers r ''Content-Type'' = Some ''application/json''
      \<and> headers r ''api_token'' = (if hd_api_key a = [] then None else Some (hd_api_key a))
      \<and> headers r ''Authorization''
          = (if hd_api_key a = [] then None else Some (''Bearer '' @ hd_api_key a)))
   \<and> (\<forall>r \<in> set (posts (fst (lifestyle_shot_by_text b env))).
      headers r ''Accept'' = Some ''application/json''
      \<and> headers r ''Content-Type'' = Some ''application/json''
      \<and> headers r ''api_token'' = Some (strip (ls_api_key b))
      \<and> headers r ''Authorization'' = None)"
proof (intro conjI ballI)
  fix r assume "r \<in> set (posts (fst (erase_foreground k d u c env)))"
  then have h: "headers r = [''Accept'' \<mapsto> ''application/json'',
                    ''Content-Type'' \<mapsto> ''application/json'',
                    ''api_token'' \<mapsto> k, ''Authorization'' \<mapsto> ''Bearer '' @ k]"
    using erase_foreground_posts [of r k d u c env] by blast
  show "headers r ''Accept'' = Some ''application/json''"
    and "headers r ''Content-Type'' = Some ''application/json''"
    and "headers r ''api_token'' = Some k"
    and "headers r ''Authorization'' = Some (''Bearer '' @ k)"
    by (simp_all add: h)
next
  fix r assume "r \<in> set (posts (fst (generate_hd_image a env)))"
  then have h: "headers r = hd_headers (hd_api_key a)"
    using generate_hd_image_posts [of r a env] by blast
  show "headers r ''Accept'' = Some ''application/json''"
    and "headers r ''Content-Type'' = Some ''application/json''"
    and "headers r ''api_token'' = (if hd_api_key a = [] then None else Some (hd_api_key a))"
    and "headers r ''Authorization''
          = (if hd_api_key a = [] then None else Some (''Bearer '' @ hd_api_key a))"
    by (simp_all add: h hd_headers_def Let_def)
next
  fix r assume "r \<in> set (posts (fst (lifestyle_shot_by_text b env)))"
  then have h: "headers r = ls_headers (ls_api_key b)"
    by (auto simp: lifestyle_posts)
  show "headers r ''Accept'' = Some ''application/json''"
    and "headers r ''Content-Type'' = Some ''application/json''"
    and "headers r ''api_token'' = Some (strip (ls_api_key b))"
    and "headers r ''Authorization'' = None"
    by (simp_all add: h ls_headers_def)
qed

theorem post_headers_witness:
  "posts (fst (generate_hd_image (hd_defaults ''a red chair'' ''abcd1234efgh'')
                 (repeated resp_200))) \<noteq> []
   \<and> headers (hd (posts (fst (generate_hd_image (hd_defaults ''a red chair'' ''abcd1234efgh'')
                 (repeated resp_200))))) ''Authorization'' = Some ''Bearer abcd1234efgh''"
proof -
  let ?p = "posts (fst (generate_hd_image (hd_defaults ''a red chair'' ''abcd1234efgh'')
                          (repeated resp_200)))"
  have ne: "?p \<noteq> []"
    by (rule generate_hd_image_posts_nonempty) (simp add: hd_defaults_def)
  then have "hd ?p \<in> set ?p" by simp
  then have "headers (hd ?p) ''Authorization'' = Some ''Bearer abcd1234efgh''"
    using post_headers [of "''x''" None None False "repeated resp_200"
                           "hd_defaults ''a red chair'' ''abcd1234efgh''"]
    by (simp add: hd_defaults_def)
  with ne show ?thesis by blast
qed

theorem lifestyle_post_has_no_bearer_header:
  "posts (fst (lifestyle_shot_by_text
      (ls_defaults ''abcd1234efgh'' [0x89, 0x50, 0x4E, 0x47] ''a kitchen'') (repeated resp_200)))
     \<noteq> []
   \<and> headers (hd (posts (fst (lifestyle_shot_by_text
      (ls_defaults ''abcd1234efgh'' [0x89, 0x50, 0x4E, 0x47] ''a kitchen'') (repeated resp_200)))))
      ''Authorization'' = None"
  by (simp add: lifestyle_posts ls_headers_def)

subsection \<open>Exhausted retries\<close>

lemma str_nat_attempts: "str_nat (Suc RETRY_COUNT) = ''3''"
  by (simp add: RETRY_COUNT_def str_nat.simps)

lemma erase_loop_all_transient:
  assumes "\<forall>b. a \<le> b \<and> b \<le> RETRY_COUNT \<longrightarrow> transient (env b)"
  shows "length (posts (fst (erase_foreground_loop env req k a le))) = Suc RETRY_COUNT - a
         \<and> snd (erase_foreground_loop env req k a le) =
             Inl (RaiseException (''Erase foreground failed after 3 attempts: ''
                    @ (if a \<le> RETRY_COUNT then describe (env RETRY_COUNT)
                       else str_last_exc le)))"
  using assms
proof (induction "Suc RETRY_COUNT - a" arbitrary: a le)
  case 0
  then have "RETRY_COUNT < a" by simp
  then show ?case by (simp add: erase_loop_exhausted str_nat_attempts)
next
  case (Suc n)
  then have a: "a \<le> RETRY_COUNT" and n: "n = Suc RETRY_COUNT - Suc a" by simp_all
  from Suc.prems a have "transient (env a)" by simp
  then obtain e where e: "post_json (env a) = Inl e" "is_RequestException (exc_cls e)"
      "\<not> (exc_cls e = HTTPError \<and> client_error (exc_status e))" "exc_str e = describe (env a)"
    using transient_post_json by blast
  from Suc.prems have "\<forall>b. Suc a \<le> b \<and> b \<le> RETRY_COUNT \<longrightarrow> transient (env b)" by simp
  note ih = Suc.hyps(1) [OF n this, of "Some e"]
  from a e erase_loop_retry [of a env e req k le]
  obtain line line' where
    "erase_foreground_loop env req k a le =
       ([Print [PStr line], Post req]
          @ (if Suc a \<le> RETRY_COUNT
             then [Print [PStr line'], Sleep (1 * RETRY_BACKOFF ^ Suc a)] else [])
          @ fst (erase_foreground_loop env req k (Suc a) (Some e)),
        snd (erase_foreground_loop env req k (Suc a) (Some e)))"
    by blast
  note step = this
  show ?case
  proof (cases "Suc a \<le> RETRY_COUNT")
    case True
    with step ih a show ?thesis by (simp add: posts_append)
  next
    case False
    with a have eq: "a = RETRY_COUNT" by simp
    with step ih e(4) show ?thesis by (simp add: posts_append str_last_exc_def)
  qed
qed

lemma hd_loop_all_transient:
  assumes "\<forall>b. a \<le> b \<and> b \<le> RETRY_COUNT \<longrightarrow> transient (env b)"
  shows "length (posts (fst (generate_hd_image_loop env req k a le))) = Suc RETRY_COUNT - a
         \<and> snd (generate_hd_image_loop env req k a le) =
             Inl (RaiseException (''HD image generation failed after 3 attempts: ''
                    @ (if a \<le> RETRY_COUNT then describe (env RETRY_COUNT)
                       else str_last_exc le)))"
  using assms
proof (induction "Suc RETRY_COUNT - a" arbitrary: a le)
  case 0
  then have "RETRY_COUNT < a" by simp
  then show ?case by (simp add: hd_loop_exhausted str_nat_attempts)
next
  case (Suc n)
  then have a: "a \<le> RETRY_COUNT" and n: "n = Suc RETRY_COUNT - Suc a" by simp_all
  from Suc.prems a have "transient (env a)" by simp
  then obtain e where e: "post_json (env a) = Inl e" "is_RequestException (exc_cls e)"
      "\<not> (exc_cls e = HTTPError \<and> client_error (exc_status e))" "exc_str e = describe (env a)"
    using transient_post_json by blast
  from Suc.prems have "\<forall>b. Suc a \<le> b \<and> b \<le> RETRY_COUNT \<longrightarrow> transient (env b)" by simp
  note ih = Suc.hyps(1) [OF n this, of "Some e"]
  from a e hd_loop_retry [of a env e req k le]
  obtain line line' where
    "generate_hd_image_loop env req k a le =
       ([Print [PStr line], Post req]
          @ (if Suc a \<le> RETRY_COUNT
             then [Print [PStr line'], Sleep (1 * RETRY_BACKOFF ^ Suc a)] else [])
          @ fst (generate_hd_image_loop env req k (Suc a) (Some e)),
        snd (generate_hd_image_loop env req k (Suc a) (Some e)))"
    by blast
  note step = this
  show ?case
  proof (cases "Suc a \<le> RETRY_COUNT")
    case True
    with step ih a show ?thesis by (simp add: posts_append)
  next
    case False
    with a have eq: "a = RETRY_COUNT" by simp
    with step ih e(4) show ?thesis by (simp add: posts_append str_last_exc_def)
  qed
qed


lemma retrying_functions_exhaust:
  assumes "\<forall>b \<le> RETRY_COUNT. transient (env b)"
  shows "(k \<noteq> [] \<and> (truthy d \<or> truthy u) \<longrightarrow>
            length (posts (fst (erase_foreground k d u c env))) = 3
            \<and> snd (erase_foreground k d u c env) =
                Inl (RaiseException (''Erase foreground failed after 3 attempts: ''
                       @ describe (env 2))))
         \<and> (hd_prompt a \<noteq> [] \<longrightarrow>
            length (posts (fst (generate_hd_image a env))) = 3
            \<and> snd (generate_hd_image a env) =
                Inl (RaiseException (''HD image generation failed after 3 attempts: ''
                       @ describe (env 2))))"
proof -
  from assms have t: "\<forall>b. 0 \<le> b \<and> b \<le> RETRY_COUNT \<longrightarrow> transient (env b)" by simp
  show ?thesis
    using erase_foreground_valid [of k d u c env] generate_hd_image_valid [of a env]
      erase_loop_all_transient [OF t, of _ k None]
      hd_loop_all_transient [OF t, of _ "hd_api_key a" None]
    by (auto simp: RETRY_COUNT_def)
qed

text \<open>
  Claim C2. When every attempt fails transiently, \<open>erase_foreground\<close> and
  \<open>generate_hd_image\<close> make three POSTs and raise the exhausted-retries error with the last
  error's description and the attempt count (\<open>retrying_functions_exhaust\<close>).
  \<open>lifestyle_shot_by_text\<close> does not: answered 429 at every attempt it makes a single POST,
  never sleeps, and raises its wrapped error, which names no attempt count.
\<close>

theorem lifestyle_429_is_not_retried:
  "length (posts (fst (lifestyle_shot_by_text
      (ls_defaults ''abcd1234efgh'' [0x89, 0x50, 0x4E, 0x47] ''a kitchen'') (repeated resp_429))))
     = 1
   \<and> sleeps (fst (lifestyle_shot_by_text
      (ls_defaults ''abcd1234efgh'' [0x89, 0x50, 0x4E, 0x47] ''a kitchen'') (repeated resp_429)))
     = []
   \<and> snd (lifestyle_shot_by_text
      (ls_defaults ''abcd1234efgh'' [0x89, 0x50, 0x4E, 0x47] ''a kitchen'') (repeated resp_429))
     = Inl (RaiseException
              ''Lifestyle shot generation failed: 429 Client Error: Too Many Requests'')"
  by (simp add: lifestyle_posts lifestyle_sleeps)
     (simp add: lifestyle_shot_by_text_def Let_def repeated_def resp_429_def
        raise_for_status_def)

lemma erase_foreground_429_exhausts:
  "length (posts (fst (erase_foreground ''abcd1234efgh'' None (Some ''https://img.test/a.png'')
                         False (repeated resp_429)))) = 3
   \<and> snd (erase_foreground ''abcd1234efgh'' None (Some ''https://img.test/a.png'') False
            (repeated resp_429))
      = Inl (RaiseException
               ''Erase foreground failed after 3 attempts: 429 Client Error: Too Many Requests'')"
  using retrying_functions_exhaust [of "repeated resp_429" "''abcd1234efgh''" None
          "Some ''https://img.test/a.png''" False]
  by (simp add: repeated_def resp_429_def truthy_def)

subsection \<open>Client errors\<close>

lemma client_error_post_json:
  assumes "400 \<le> status_code r" "status_code r < 500" "status_code r \<noteq> 429"
  shows "\<exists>e. post_json (PostReturns r) = Inl e \<and> exc_cls e = HTTPError
             \<and> client_error (exc_status e) \<and> the (exc_status e) = status_code r
             \<and> exc_text e = resp_text r"
  using assms
  by (simp add: post_json_def raise_for_status_def client_error_def exc_status_def exc_text_def)

lemma retrying_functions_client_error:
  assumes "env 0 = PostReturns r"
    and "400 \<le> status_code r" "status_code r < 500" "status_code r \<noteq> 429"
  shows "(k \<noteq> [] \<and> (truthy d \<or> truthy u) \<longrightarrow>
            length (posts (fst (erase_foreground k d u c env))) = 1
            \<and> sleeps (fst (erase_foreground k d u c env)) = []
            \<and> snd (erase_foreground k d u c env) =
                Inl (RaiseException (''Erase foreground failed (HTTP ''
                       @ str_int (status_code r) @ ''): '' @ resp_text r)))
         \<and> (hd_prompt a \<noteq> [] \<longrightarrow>
            length (posts (fst (generate_hd_image a env))) = 1
            \<and> sleeps (fst (generate_hd_image a env)) = []
            \<and> snd (generate_hd_image a env) =
                Inl (RaiseException (''HD image generation failed (HTTP ''
                       @ str_int (status_code r) @ ''): '' @ resp_text r)))"
proof -
  from client_error_post_json [OF assms(2-4)] assms(1)
  obtain e where e: "post_json (env 0) = Inl e" "exc_cls e = HTTPError"
      "client_error (exc_status e)" "the (exc_status e) = status_code r"
      "exc_text e = resp_text r"
    by auto
  have er: "\<exists>line. erase_foreground_loop env req k 0 None =
              ([Print [PStr line], Post req],
               Inl (RaiseException (''Erase foreground failed (HTTP ''
                      @ str_int (status_code r) @ ''): '' @ resp_text r)))" for req
    using erase_loop_client_error [of 0 env e req k None] e by simp
  have hd: "\<exists>line. generate_hd_image_loop env req (hd_api_key a) 0 None =
              ([Print [PStr line], Post req],
               Inl (RaiseException (''HD image generation failed (HTTP ''
                      @ str_int (status_code r) @ ''): '' @ resp_text r)))" for req
    using hd_loop_client_error [of 0 env e req "hd_api_key a" None] e by simp
  show ?thesis
  proof (intro conjI impI)
    assume "k \<noteq> [] \<and> (truthy d \<or> truthy u)"
    then obtain req where
      "erase_foreground k d u c env = erase_foreground_loop env req k 0 None"
      using erase_foreground_valid [of k d u c env] by blast
    with er [of req]
    show "length (posts (fst (erase_foreground k d u c env))) = 1"
      and "sleeps (fst (erase_foreground k d u c env)) = []"
      and "snd (erase_foreground k d u c env) =
             Inl (RaiseException (''Erase foreground failed (HTTP ''
                    @ str_int (status_code r) @ ''): '' @ resp_text r))"
      by auto
  next
    assume "hd_prompt a \<noteq> []"
    then obtain req where
      "generate_hd_image a env = generate_hd_image_loop env req (hd_api_key a) 0 None"
      using generate_hd_image_valid [of a env] by blast
    with hd [of req]
    show "length (posts (fst (generate_hd_image a env))) = 1"
      and "sleeps (fst (generate_hd_image a env)) = []"
      and "snd (generate_hd_image a env) =
             Inl (RaiseException (''HD image generation failed (HTTP ''
                    @ str_int (status_code r) @ ''): '' @ resp_text r))"
      by auto
  qed
qed

lemma erase_foreground_404:
  "snd (erase_foreground ''abcd1234efgh'' None (Some ''https://img.test/a.png'') False
          (repeated resp_404))
     = Inl (RaiseException ''Erase foreground failed (HTTP 404): no such page'')"
  using retrying_functions_client_error [of "repeated resp_404" _ "''abcd1234efgh''" None
          "Some ''https://img.test/a.png''" False]
  by (simp add: repeated_def resp_404_def truthy_def str_int_def str_nat.simps)

text \<open>
  Claim C5. A status in [400, 500) other than 429 is to end the call after one attempt
  with an error holding the status code and the response body text. The two retrying
  functions do so (\<open>retrying_functions_client_error\<close>). \<open>lifestyle_shot_by_text\<close> makes its one
  attempt and raises, but its message wraps only the \<open>str()\<close> of the \<open>HTTPError\<close>: answered
  404 with the body \<open>no such page\<close>, the message does not contain that body.
\<close>

theorem lifestyle_404_message_lacks_body:
  "length (posts (fst (lifestyle_shot_by_text
      (ls_defaults ''abcd1234efgh'' [0x89, 0x50, 0x4E, 0x47] ''a kitchen'') (repeated resp_404))))
     = 1
   \<and> snd (lifestyle_shot_by_text
      (ls_defaults ''abcd1234efgh'' [0x89, 0x50, 0x4E, 0x47] ''a kitchen'') (repeated resp_404))
     = Inl (RaiseException ''Lifestyle shot generation failed: 404 Client Error: Not Found'')
   \<and> \<not> sublist ''no such page''
         ''Lifestyle shot generation failed: 404 Client Error: Not Found''"
proof -
  have "\<not> sublist ''no such page''
         ''Lifestyle shot generation failed: 404 Client Error: Not Found''"
    by (simp add: sublist_Cons_right)
  then show ?thesis
    by (simp add: lifestyle_posts)
       (simp add: lifestyle_shot_by_text_def Let_def repeated_def resp_404_def
          raise_for_status_def)
qed

subsection \<open>Numeric clamps\<close>

lemma upd_if: "(if c then m(k \<mapsto> v) else m) x = (if c \<and> x = k then Some v else m x)"
  by simp

lemma upd_case:
  "(case o' of None \<Rightarrow> m | Some s \<Rightarrow> m(k \<mapsto> f s)) x
     = (case o' of None \<Rightarrow> m x | Some s \<Rightarrow> if x = k then Some (f s) else m x)"
  by (simp split: option.splits)

lemma hd_payload_num_results:
  "hd_payload a ''num_results'' = Some (JInt (max 1 (min (hd_num_results a) 4)))"
  by (simp add: hd_payload_def Let_def upd_if upd_case split: option.splits)

lemma hd_payload_steps_num:
  "hd_payload a ''steps_num'' = map_option (\<lambda>s. JInt (max 20 (min s 50))) (hd_steps_num a)"
  by (simp add: hd_payload_def Let_def upd_if upd_case split: option.splits)

lemma hd_payload_text_guidance_scale:
  "hd_payload a ''text_guidance_scale''
     = map_option (\<lambda>g. JFloat (fmax (Finite 1) (fmin g (Finite 10)))) (hd_text_guidance_scale a)"
  by (simp add: hd_payload_def Let_def upd_if upd_case split: option.splits)

lemma guidance_clamp_range:
  "\<exists>q. fmax (Finite 1) (fmin g (Finite 10)) = Finite q \<and> 1 \<le> q \<and> q \<le> 10"
  by (cases g) (auto simp: fmax_def fmin_def)

lemma ls_payload_num_results:
  "ls_payload a ''num_results'' = Some (JInt (ls_num_results a))"
  by (simp add: ls_payload_def Let_def upd_if)


lemma hd_payload_clamps:
  "(\<exists>n. hd_payload a ''num_results'' = Some (JInt n) \<and> 1 \<le> n \<and> n \<le> 4)
   \<and> (hd_steps_num a = None \<longrightarrow> hd_payload a ''steps_num'' = None)
   \<and> (\<forall>s. hd_steps_num a = Some s \<longrightarrow>
         (\<exists>n. hd_payload a ''steps_num'' = Some (JInt n) \<and> 20 \<le> n \<and> n \<le> 50))
   \<and> (hd_steps_num a = Some 5 \<longrightarrow> hd_payload a ''steps_num'' = Some (JInt 20))
   \<and> (hd_steps_num a = Some 999 \<longrightarrow> hd_payload a ''steps_num'' = Some (JInt 50))
   \<and> (hd_text_guidance_scale a = None \<longrightarrow> hd_payload a ''text_guidance_scale'' = None)
   \<and> (\<forall>g. hd_text_guidance_scale a = Some g \<longrightarrow>
         (\<exists>q. hd_payload a ''text_guidance_scale'' = Some (JFloat (Finite q))
              \<and> 1 \<le> q \<and> q \<le> 10))
   \<and> (\<forall>r \<in> set (posts (fst (generate_hd_image a env))). json r = hd_payload a)"
  using guidance_clamp_range generate_hd_image_posts [of _ a env]
  by (auto simp: hd_payload_num_results hd_payload_steps_num hd_payload_text_guidance_scale)

text \<open>
  Claim C7. Every payload builder is to clamp the results-count to [1, 4], the steps to
  [20, 50] and the guidance scale to [1.0, 10.0]. \<open>generate_hd_image\<close> does so in every
  request it sends (\<open>hd_payload_clamps\<close>). \<open>lifestyle_shot_by_text\<close> does not clamp its
  results-count: asked for 9 results, it sends \<open>num_results = 9\<close>.
\<close>

theorem lifestyle_num_results_not_clamped:
  "map (\<lambda>r. json r ''num_results'') (posts (fst (lifestyle_shot_by_text
      ((ls_defaults ''abcd1234efgh'' [0x89, 0x50, 0x4E, 0x47] ''a kitchen'')
         \<lparr>ls_num_results := 9\<rparr>) (repeated resp_200))))
     = [Some (JInt 9)]"
  by (simp add: lifestyle_posts ls_payload_num_results ls_defaults_def)

lemma generate_hd_image_steps_5_sent_as_20:
  "hd_payload ((hd_defaults ''a red chair'' ''abcd1234efgh'')\<lparr>hd_steps_num := Some 5\<rparr>)
     ''steps_num'' = Some (JInt 20)"
  by (simp add: hd_payload_steps_num hd_defaults_def)

subsection \<open>Backoff\<close>

lemma erase_loop_starts:
  "a \<le> RETRY_COUNT \<Longrightarrow>
   \<exists>line rest. fst (erase_foreground_loop env req k a le) = Print [PStr line] # Post req # rest"
  by (erule erase_loop_cases [of a env req k le]) simp_all

lemma hd_loop_starts:
  "a \<le> RETRY_COUNT \<Longrightarrow>
   \<exists>line rest. fst (generate_hd_image_loop env req k a le) = Print [PStr line] # Post req # rest"
  by (erule hd_loop_cases [of a env req k le]) simp_all

lemma erase_loop_sleeps_before_retry:
  assumes "a < RETRY_COUNT" "transient (env a)"
  shows "\<exists>l1 l2 l3 rest. fst (erase_foreground_loop env req k a le) =
           [Print [PStr l1], Post req, Print [PStr l2], Sleep (1 * RETRY_BACKOFF ^ (a + 1)),
            Print [PStr l3], Post req] @ rest"
proof -
  from assms(2) obtain e where e: "post_json (env a) = Inl e" "is_RequestException (exc_cls e)"
      "\<not> (exc_cls e = HTTPError \<and> client_error (exc_status e))"
    using transient_post_json by blast
  from assms(1) have a: "a \<le> RETRY_COUNT" and sa: "Suc a \<le> RETRY_COUNT" by simp_all
  from a e erase_loop_retry [of a env e req k le] sa
  obtain l1 l2 where
    "fst (erase_foreground_loop env req k a le) =
       [Print [PStr l1], Post req, Print [PStr l2], Sleep (1 * RETRY_BACKOFF ^ Suc a)]
         @ fst (erase_foreground_loop env req k (Suc a) (Some e))"
    by auto
  moreover from erase_loop_starts [OF sa, of env req k "Some e"]
  obtain l3 rest where
    "fst (erase_foreground_loop env req k (Suc a) (Some e)) = Print [PStr l3] # Post req # rest"
    by blast
  ultimately show ?thesis by simp
qed

lemma hd_loop_sleeps_before_retry:
  assumes "a < RETRY_COUNT" "transient (env a)"
  shows "\<exists>l1 l2 l3 rest. fst (generate_hd_image_loop env req k a le) =
           [Print [PStr l1], Post req, Print [PStr l2], Sleep (1 * RETRY_BACKOFF ^ (a + 1)),
            Print [PStr l3], Post req] @ rest"
proof -
  from assms(2) obtain e where e: "post_json (env a) = Inl e" "is_RequestException (exc_cls e)"
      "\<not> (exc_cls e = HTTPError \<and> client_error (exc_status e))"
    using transient_post_json by blast
  from assms(1) have a: "a \<le> RETRY_COUNT" and sa: "Suc a \<le> RETRY_COUNT" by simp_all
  from a e hd_loop_retry [of a env e req k le] sa
  obtain l1 l2 where
    "fst (generate_hd_image_loop env req k a le) =
       [Print [PStr l1], Post req, Print [PStr l2], Sleep (1 * RETRY_BACKOFF ^ Suc a)]
         @ fst (generate_hd_image_loop env req k (Suc a) (Some e))"
    by auto
  moreover from hd_loop_starts [OF sa, of env req k "Some e"]
  obtain l3 rest where
    "fst (generate_hd_image_loop env req k (Suc a) (Some e)) = Print [PStr l3] # Post req # rest"
    by blast
  ultimately show ?thesis by simp
qed

lemma backoff_increasing: "sorted_wrt (<) (map (\<lambda>i. 1 * RETRY_BACKOFF ^ i) [m ..< n])"
proof -
  have "1 < RETRY_BACKOFF" by (simp add: RETRY_BACKOFF_def)
  then have "i < j \<Longrightarrow> RETRY_BACKOFF ^ i < RETRY_BACKOFF ^ j" for i j :: nat
    by (rule power_strict_increasing [rotated])
  then show ?thesis
    by (simp add: sorted_wrt_map sorted_wrt_iff_nth_less)
qed

lemma erase_foreground_sleeps:
  "sleeps (fst (erase_foreground k d u c env)) =
     map (\<lambda>i. 1 * RETRY_BACKOFF ^ i)
       [1 ..< length (posts (fst (erase_foreground k d u c env)))]"
proof (cases "k \<noteq> [] \<and> (truthy d \<or> truthy u)")
  case True
  then obtain req where "erase_foreground k d u c env = erase_foreground_loop env req k 0 None"
    using erase_foreground_valid [of k d u c env] by blast
  then show ?thesis using erase_loop_sleeps [of env req k 0 None] by simp
next
  case False
  then show ?thesis using erase_foreground_invalid [of k d u c env] by auto
qed

lemma generate_hd_image_sleeps:
  "sleeps (fst (generate_hd_image a env)) =
     map (\<lambda>i. 1 * RETRY_BACKOFF ^ i) [1 ..< length (posts (fst (generate_hd_image a env)))]"
proof (cases "hd_prompt a \<noteq> []")
  case True
  then obtain req where
    "generate_hd_image a env = generate_hd_image_loop env req (hd_api_key a) 0 None"
    using generate_hd_image_valid [of a env] by blast
  then show ?thesis using hd_loop_sleeps [of env req "hd_api_key a" 0 None] by simp
next
  case False
  then show ?thesis using generate_hd_image_invalid [of a env] by auto
qed


text \<open>
  Claim C8. In the two retry loops, a transient failure at attempt \<open>a\<close> that leaves attempts
  (\<open>a + 1 \<le> RETRY_COUNT\<close>) is followed by a sleep of exactly \<open>1.0 * 1.5 ^ (a + 1)\<close>, and the
  next POST comes after that sleep. Within one call of \<open>erase_foreground\<close> or of
  \<open>generate_hd_image\<close> the sleeps are \<open>1.0 * 1.5 ^ i\<close> for \<open>i = 1, 2, ...\<close>, one between each
  two consecutive POSTs, hence strictly increasing. \<open>lifestyle_shot_by_text\<close> has no attempt
  counter; its single attempt leaves none and it never sleeps.
\<close>

theorem backoff_between_attempts:
  "(a < RETRY_COUNT \<and> transient (env a) \<longrightarrow>
      (\<exists>l1 l2 l3 rest. fst (erase_foreground_loop env req k a le) =
           [Print [PStr l1], Post req, Print [PStr l2], Sleep (1 * (3 / 2) ^ (a + 1)),
            Print [PStr l3], Post req] @ rest)
      \<and> (\<exists>l1 l2 l3 rest. fst (generate_hd_image_loop env req k a le) =
           [Print [PStr l1], Post req, Print [PStr l2], Sleep (1 * (3 / 2) ^ (a + 1)),
            Print [PStr l3], Post req] @ rest))
   \<and> sleeps (fst (erase_foreground key d u c env))
       = map (\<lambda>i. 1 * (3 / 2) ^ i) [1 ..< length (posts (fst (erase_foreground key d u c env)))]
   \<and> sorted_wrt (<) (sleeps (fst (erase_foreground key d u c env)))
   \<and> sleeps (fst (generate_hd_image h env))
       = map (\<lambda>i. 1 * (3 / 2) ^ i) [1 ..< length (posts (fst (generate_hd_image h env)))]
   \<and> sorted_wrt (<) (sleeps (fst (generate_hd_image h env)))
   \<and> sleeps (fst (lifestyle_shot_by_text b env)) = []"
proof -
  have step: "a < RETRY_COUNT \<and> transient (env a) \<longrightarrow>
      (\<exists>l1 l2 l3 rest. fst (erase_foreground_loop env req k a le) =
           [Print [PStr l1], Post req, Print [PStr l2], Sleep (1 * (3 / 2) ^ (a + 1)),
            Print [PStr l3], Post req] @ rest)
      \<and> (\<exists>l1 l2 l3 rest. fst (generate_hd_image_loop env req k a le) =
           [Print [PStr l1], Post req, Print [PStr l2], Sleep (1 * (3 / 2) ^ (a + 1)),
            Print [PStr l3], Post req] @ rest)"
    using erase_loop_sleeps_before_retry [of a env req k le]
      hd_loop_sleeps_before_retry [of a env req k le]
    by (simp only: RETRY_BACKOFF_def) blast
  have e1: "sleeps (fst (erase_foreground key d u c env))
       = map (\<lambda>i. 1 * (3 / 2) ^ i) [1 ..< length (posts (fst (erase_foreground key d u c env)))]"
    using erase_foreground_sleeps [of key d u c env] by (simp only: RETRY_BACKOFF_def)
  have e2: "sorted_wrt (<) (sleeps (fst (erase_foreground key d u c env)))"
    using backoff_increasing by (simp only: erase_foreground_sleeps)
  have h1: "sleeps (fst (generate_hd_image h env))
       = map (\<lambda>i. 1 * (3 / 2) ^ i) [1 ..< length (posts (fst (generate_hd_image h env)))]"
    using generate_hd_image_sleeps [of h env] by (simp only: RETRY_BACKOFF_def)
  have h2: "sorted_wrt (<) (sleeps (fst (generate_hd_image h env)))"
    using backoff_increasing by (simp only: generate_hd_image_sleeps)
  from step e1 e2 h1 h2 lifestyle_sleeps [of b env] show ?thesis by blast
qed

theorem backoff_between_attempts_witness:
  "0 < RETRY_COUNT \<and> transient (repeated resp_429 0)
   \<and> sleeps (fst (erase_foreground ''abcd1234efgh'' None (Some ''https://img.test/a.png'')
                     False (repeated resp_429))) = [3 / 2, 9 / 4]
   \<and> (\<exists>l1 l2 l3 rest. fst (erase_foreground_loop (repeated resp_429)
           \<lparr>url = ''https://img.test/e'', headers = Map.empty, json = Map.empty,
            timeout = Some 15\<rparr> ''abcd1234efgh'' 0 None) =
           [Print [PStr l1],
            Post \<lparr>url = ''https://img.test/e'', headers = Map.empty, json = Map.empty,
                  timeout = Some 15\<rparr>,
            Print [PStr l2], Sleep (3 / 2), Print [PStr l3],
            Post \<lparr>url = ''https://img.test/e'', headers = Map.empty, json = Map.empty,
                  timeout = Some 15\<rparr>] @ rest)"
proof -
  have hyp: "0 < RETRY_COUNT \<and> transient (repeated resp_429 0)"
    by (simp add: RETRY_COUNT_def repeated_def resp_429_def)
  have len: "length (posts (fst (erase_foreground ''abcd1234efgh'' None
               (Some ''https://img.test/a.png'') False (repeated resp_429)))) = 3"
    using erase_foreground_429_exhausts by blast
  note th = backoff_between_attempts [of 0 "repeated resp_429"
      "\<lparr>url = ''https://img.test/e'', headers = Map.empty, json = Map.empty,
        timeout = Some 15\<rparr>" "''abcd1234efgh''" None "''abcd1234efgh''" None
      "Some ''https://img.test/a.png''" False]
  from th len have "sleeps (fst (erase_foreground ''abcd1234efgh'' None
        (Some ''https://img.test/a.png'') False (repeated resp_429))) = [3 / 2, 9 / 4]"
    by (simp add: upt_rec power2_eq_square numeral_3_eq_3)
  moreover from th hyp have "\<exists>l1 l2 l3 rest. fst (erase_foreground_loop (repeated resp_429)
           \<lparr>url = ''https://img.test/e'', headers = Map.empty, json = Map.empty,
            timeout = Some 15\<rparr> ''abcd1234efgh'' 0 None) =
           [Print [PStr l1],
            Post \<lparr>url = ''https://img.test/e'', headers = Map.empty, json = Map.empty,
                  timeout = Some 15\<rparr>,
            Print [PStr l2], Sleep (3 / 2), Print [PStr l3],
            Post \<lparr>url = ''https://img.test/e'', headers = Map.empty, json = Map.empty,
                  timeout = Some 15\<rparr>] @ rest"
    by simp
  ultimately show ?thesis using hyp by blast
qed

subsection \<open>Input validation\<close>

lemma generate_hd_image_returns:
  assumes "hd_prompt a \<noteq> []" "post_json (env 0) = Inr j"
  shows "length (posts (fst (generate_hd_image a env))) = 1
         \<and> snd (generate_hd_image a env) = Inr j"
proof -
  from assms(1) obtain req where
    "generate_hd_image a env = generate_hd_image_loop env req (hd_api_key a) 0 None"
    using generate_hd_image_valid [of a env] by blast
  moreover from assms(2) hd_loop_return [of 0 env j req "hd_api_key a" None]
  obtain line where "generate_hd_image_loop env req (hd_api_key a) 0 None =
      ([Print [PStr line], Post req], Inr j)"
    by auto
  ultimately show ?thesis by simp
qed

text \<open>
  Claim C3, amended. \<open>erase_foreground\<close> raises \<open>ValueError\<close> before any log line, request
  or sleep when the credential is empty, and when neither \<open>image_data\<close> nor \<open>image_url\<close> is
  given. \<open>generate_hd_image\<close> does so when the prompt is empty. \<open>generate_hd_image\<close> does
  not require the credential: with a non-empty prompt and an empty credential it issues
  its POST, without the two credential headers.
\<close>

theorem input_validation:
  "(k = [] \<longrightarrow>
      erase_foreground k d u c env = ([], Inl (RaiseValueError ''API key is missing'')))
   \<and> (k \<noteq> [] \<and> \<not> (truthy d \<or> truthy u) \<longrightarrow>
      erase_foreground k d u c env =
        ([], Inl (RaiseValueError ''Either image_data or image_url must be provided'')))
   \<and> (hd_prompt a = [] \<longrightarrow>
      generate_hd_image a env =
        ([], Inl (RaiseValueError ''Prompt is required for image generation'')))
   \<and> (hd_prompt a \<noteq> [] \<and> hd_api_key a = [] \<longrightarrow>
      posts (fst (generate_hd_image a env)) \<noteq> []
      \<and> (\<forall>r \<in> set (posts (fst (generate_hd_image a env))).
            headers r ''api_token'' = None \<and> headers r ''Authorization'' = None))"
proof (intro conjI impI ballI)
  assume "k = []"
  then show "erase_foreground k d u c env = ([], Inl (RaiseValueError ''API key is missing''))"
    by (simp add: erase_foreground_def)
next
  assume "k \<noteq> [] \<and> \<not> (truthy d \<or> truthy u)"
  then show "erase_foreground k d u c env =
        ([], Inl (RaiseValueError ''Either image_data or image_url must be provided''))"
    by (simp add: erase_foreground_def)
next
  assume "hd_prompt a = []"
  then show "generate_hd_image a env =
        ([], Inl (RaiseValueError ''Prompt is required for image generation''))"
    by (rule generate_hd_image_invalid)
next
  assume "hd_prompt a \<noteq> [] \<and> hd_api_key a = []"
  then show "posts (fst (generate_hd_image a env)) \<noteq> []"
    by (simp add: generate_hd_image_posts_nonempty)
next
  fix r
  assume h: "hd_prompt a \<noteq> [] \<and> hd_api_key a = []"
    and r: "r \<in> set (posts (fst (generate_hd_image a env)))"
  from r have "headers r = hd_headers (hd_api_key a)"
    using generate_hd_image_posts [of r a env] by blast
  with h show "headers r ''api_token'' = None" and "headers r ''Authorization'' = None"
    by (simp_all add: hd_headers_def)
qed

theorem input_validation_witness:
  "erase_foreground [] None (Some ''https://img.test/a.png'') False (repeated resp_200)
     = ([], Inl (RaiseValueError ''API key is missing''))
   \<and> erase_foreground ''abcd1234efgh'' None None False (repeated resp_200)
     = ([], Inl (RaiseValueError ''Either image_data or image_url must be provided''))
   \<and> generate_hd_image (hd_defaults [] ''abcd1234efgh'') (repeated resp_200)
     = ([], Inl (RaiseValueError ''Prompt is required for image generation''))
   \<and> posts (fst (generate_hd_image (hd_defaults ''a red chair'' []) (repeated resp_200)))
     \<noteq> []"
proof -
  have "erase_foreground [] None (Some ''https://img.test/a.png'') False (repeated resp_200)
     = ([], Inl (RaiseValueError ''API key is missing''))"
    using input_validation [of "[]" None "Some ''https://img.test/a.png''" False
            "repeated resp_200"]
    by simp
  moreover have "erase_foreground ''abcd1234efgh'' None None False (repeated resp_200)
     = ([], Inl (RaiseValueError ''Either image_data or image_url must be provided''))"
    using input_validation [of "''abcd1234efgh''" None None False "repeated resp_200"]
    by (simp add: truthy_def)
  moreover have "generate_hd_image (hd_defaults [] ''abcd1234efgh'') (repeated resp_200)
     = ([], Inl (RaiseValueError ''Prompt is required for image generation''))"
    using input_validation [of "[]" None None False "repeated resp_200"
            "hd_defaults [] ''abcd1234efgh''"]
    by (simp add: hd_defaults_def)
  moreover have "posts (fst (generate_hd_image (hd_defaults ''a red chair'' [])
                    (repeated resp_200))) \<noteq> []"
    using input_validation [of "[]" None None False "repeated resp_200"
            "hd_defaults ''a red chair'' []"]
    by (simp add: hd_defaults_def)
  ultimately show ?thesis by blast
qed

theorem generate_hd_image_posts_without_credential:
  "length (posts (fst (generate_hd_image (hd_defaults ''a red chair'' []) (repeated resp_200))))
     = 1
   \<and> snd (generate_hd_image (hd_defaults ''a red chair'' []) (repeated resp_200)) = Inr ''{}''"
  by (rule generate_hd_image_returns)
     (simp_all add: hd_defaults_def repeated_def resp_200_def post_json_def
        raise_for_status_def)

text \<open>
  \<open>lifestyle_shot_by_text\<close> checks none of its inputs: with an empty credential, empty
  image bytes and an empty scene description it still issues its POST.
\<close>

lemma lifestyle_posts_without_inputs:
  "length (posts (fst (lifestyle_shot_by_text (ls_defaults [] [] []) (repeated resp_200)))) = 1"
  by (simp add: lifestyle_posts)

subsection \<open>Responses that are not JSON\<close>






text \<open>
  With requests 2.27 or later \<open>Response.json()\<close> raises
  \<open>requests.exceptions.JSONDecodeError\<close>, which the clause \<open>except requests.RequestException\<close>
  catches before \<open>except ValueError\<close> is reached: the two retrying functions then treat a
  200 response that is not JSON as a transient failure.
\<close>

lemma erase_loop_all_retried:
  assumes "\<forall>b. a \<le> b \<and> b \<le> RETRY_COUNT \<longrightarrow> post_json (env b) = Inl e"
    and "is_RequestException (exc_cls e)" "exc_cls e \<noteq> HTTPError"
  shows "length (posts (fst (erase_foreground_loop env req k a le))) = Suc RETRY_COUNT - a
         \<and> snd (erase_foreground_loop env req k a le) =
             Inl (RaiseException (''Erase foreground failed after 3 attempts: ''
                    @ (if a \<le> RETRY_COUNT then exc_str e else str_last_exc le)))"
  using assms(1)
proof (induction "Suc RETRY_COUNT - a" arbitrary: a le)
  case 0
  then have "RETRY_COUNT < a" by simp
  then show ?case by (simp add: erase_loop_exhausted str_nat_attempts)
next
  case (Suc n)
  then have a: "a \<le> RETRY_COUNT" and n: "n = Suc RETRY_COUNT - Suc a" by simp_all
  from Suc.prems a have pj: "post_json (env a) = Inl e" by simp
  from Suc.prems have "\<forall>b. Suc a \<le> b \<and> b \<le> RETRY_COUNT \<longrightarrow> post_json (env b) = Inl e"
    by simp
  note ih = Suc.hyps(1) [OF n this, of "Some e"]
  from a pj assms(2,3) erase_loop_retry [of a env e req k le]
  obtain line line' where step:
    "erase_foreground_loop env req k a le =
       ([Print [PStr line], Post req]
          @ (if Suc a \<le> RETRY_COUNT
             then [Print [PStr line'], Sleep (1 * RETRY_BACKOFF ^ Suc a)] else [])
          @ fst (erase_foreground_loop env req k (Suc a) (Some e)),
        snd (erase_foreground_loop env req k (Suc a) (Some e)))"
    by blast
  show ?case
  proof (cases "Suc a \<le> RETRY_COUNT")
    case True
    with step ih a show ?thesis by (simp add: posts_append)
  next
    case False
    with step ih a show ?thesis by (simp add: posts_append str_last_exc_def)
  qed
qed

lemma erase_foreground_requests_json_error_is_retried:
  "length (posts (fst (erase_foreground ''abcd1234efgh'' None (Some ''https://img.test/a.png'')
                         False (repeated (resp_200_html JSONDecodeError))))) = 3
   \<and> snd (erase_foreground ''abcd1234efgh'' None (Some ''https://img.test/a.png'') False
            (repeated (resp_200_html JSONDecodeError)))
      = Inl (RaiseException ''Erase foreground failed after 3 attempts: Expecting value'')"
proof -
  let ?env = "repeated (resp_200_html JSONDecodeError) :: nat \<Rightarrow> string outcome"
  let ?e = "Exc JSONDecodeError ''Expecting value'' None"
  have pj: "\<forall>b. 0 \<le> b \<and> b \<le> RETRY_COUNT \<longrightarrow> post_json (?env b) = Inl ?e"
    by (simp add: repeated_def resp_200_html_def post_json_def raise_for_status_def)
  obtain req where "erase_foreground ''abcd1234efgh'' None (Some ''https://img.test/a.png'')
        False ?env = erase_foreground_loop ?env req ''abcd1234efgh'' 0 None"
    using erase_foreground_valid [of "''abcd1234efgh''" None "Some ''https://img.test/a.png''"
            False ?env]
    by (auto simp: truthy_def)
  with erase_loop_all_retried [OF pj, of req "''abcd1234efgh''" None]
  show ?thesis by (simp add: RETRY_COUNT_def)
qed

subsection \<open>The credential in logs and errors\<close>

lemma length_mask_key:
  "k \<noteq> [] \<Longrightarrow> length (mask_key (Some k)) = 2 * min 4 (length k) + 3"
  by (simp add: mask_key_def truthy_def slice_to_take slice_from_last)

lemma mask_key_empty_iff:
  assumes "mask_key (Some k1) = mask_key (Some k2)"
  shows "k1 = [] \<longleftrightarrow> k2 = []"
proof -
  have odd: "k \<noteq> [] \<Longrightarrow> length (mask_key (Some k)) \<noteq> 8" for k
    by (simp add: length_mask_key) presburger
  have e: "length (mask_key (Some [])) = 8"
    by (simp add: mask_key_def truthy_def)
  from assms have "length (mask_key (Some k1)) = length (mask_key (Some k2))" by simp
  with odd [of k1] odd [of k2] e show ?thesis by metis
qed

lemma erase_loop_mask_only:
  assumes "mask_key (Some k1) = mask_key (Some k2)" "url r1 = url r2"
  shows "prints (fst (erase_foreground_loop env r1 k1 a le))
           = prints (fst (erase_foreground_loop env r2 k2 a le))
         \<and> snd (erase_foreground_loop env r1 k1 a le)
           = snd (erase_foreground_loop env r2 k2 a le)"
proof (induction "Suc RETRY_COUNT - a" arbitrary: a le)
  case 0
  then have "RETRY_COUNT < a" by simp
  then show ?case by (simp add: erase_loop_exhausted)
next
  case (Suc n)
  then have a: "a \<le> RETRY_COUNT" and n: "n = Suc RETRY_COUNT - Suc a" by simp_all
  note ih = Suc.hyps(1) [OF n]
  show ?case
    by (simp add: erase_foreground_loop.simps [of env r1 k1 a le]
          erase_foreground_loop.simps [of env r2 k2 a le]
          a assms ih Let_def prints_append case_prod_beta split: sum.splits)
qed

lemma hd_loop_mask_only:
  assumes "mask_key (Some k1) = mask_key (Some k2)" "url r1 = url r2"
  shows "prints (fst (generate_hd_image_loop env r1 k1 a le))
           = prints (fst (generate_hd_image_loop env r2 k2 a le))
         \<and> snd (generate_hd_image_loop env r1 k1 a le)
           = snd (generate_hd_image_loop env r2 k2 a le)"
proof (induction "Suc RETRY_COUNT - a" arbitrary: a le)
  case 0
  then have "RETRY_COUNT < a" by simp
  then show ?case by (simp add: hd_loop_exhausted)
next
  case (Suc n)
  then have a: "a \<le> RETRY_COUNT" and n: "n = Suc RETRY_COUNT - Suc a" by simp_all
  note ih = Suc.hyps(1) [OF n]
  show ?case
    by (simp add: generate_hd_image_loop.simps [of env r1 k1 a le]
          generate_hd_image_loop.simps [of env r2 k2 a le]
          a assms ih Let_def prints_append case_prod_beta split: sum.splits)
qed


text \<open>
  Claim C1, amended. In \<open>erase_foreground\<close> and \<open>generate_hd_image\<close> the credential reaches
  the log lines and the raised error only through \<open>_mask_key\<close>: two calls that differ only in
  their credentials, the two credentials having the same masked form, and that receive the
  same responses, print the same log lines and raise the same error (or return the same
  value).
\<close>

theorem credential_only_masked:
  assumes "mask_key (Some k1) = mask_key (Some k2)"
  shows "prints (fst (erase_foreground k1 d u c env))
           = prints (fst (erase_foreground k2 d u c env))
         \<and> snd (erase_foreground k1 d u c env) = snd (erase_foreground k2 d u c env)
         \<and> prints (fst (generate_hd_image (a\<lparr>hd_api_key := k1\<rparr>) env))
           = prints (fst (generate_hd_image (a\<lparr>hd_api_key := k2\<rparr>) env))
         \<and> snd (generate_hd_image (a\<lparr>hd_api_key := k1\<rparr>) env)
           = snd (generate_hd_image (a\<lparr>hd_api_key := k2\<rparr>) env)"
proof -
  from assms have e: "k1 = [] \<longleftrightarrow> k2 = []" by (rule mask_key_empty_iff)
  have er: "prints (fst (erase_foreground k1 d u c env))
              = prints (fst (erase_foreground k2 d u c env))
            \<and> snd (erase_foreground k1 d u c env) = snd (erase_foreground k2 d u c env)"
  proof (cases "k1 \<noteq> [] \<and> (truthy d \<or> truthy u)")
    case True
    with e have t2: "k2 \<noteq> [] \<and> (truthy d \<or> truthy u)" by simp
    from True obtain r1 where r1:
      "erase_foreground k1 d u c env = erase_foreground_loop env r1 k1 0 None"
      "url r1 = ''https://engine.prod.bria-api.com/v1/erase_foreground''"
      using erase_foreground_valid [of k1 d u c env] by blast
    from t2 obtain r2 where r2:
      "erase_foreground k2 d u c env = erase_foreground_loop env r2 k2 0 None"
      "url r2 = ''https://engine.prod.bria-api.com/v1/erase_foreground''"
      using erase_foreground_valid [of k2 d u c env] by blast
    from r1(2) r2(2) have "url r1 = url r2" by simp
    from erase_loop_mask_only [OF assms this, of env 0 None] r1(1) r2(1)
    show ?thesis by simp
  next
    case False
    with e show ?thesis by (auto simp: erase_foreground_def)
  qed
  have hd: "prints (fst (generate_hd_image (a\<lparr>hd_api_key := k1\<rparr>) env))
              = prints (fst (generate_hd_image (a\<lparr>hd_api_key := k2\<rparr>) env))
            \<and> snd (generate_hd_image (a\<lparr>hd_api_key := k1\<rparr>) env)
              = snd (generate_hd_image (a\<lparr>hd_api_key := k2\<rparr>) env)"
  proof (cases "hd_prompt a \<noteq> []")
    case True
    then obtain r1 where r1:
      "generate_hd_image (a\<lparr>hd_api_key := k1\<rparr>) env
         = generate_hd_image_loop env r1 k1 0 None"
      "url r1 = ''https://engine.prod.bria-api.com/v1/text-to-image/hd/'' @ hd_model_version a"
      using generate_hd_image_valid [of "a\<lparr>hd_api_key := k1\<rparr>" env] by auto
    from True obtain r2 where r2:
      "generate_hd_image (a\<lparr>hd_api_key := k2\<rparr>) env
         = generate_hd_image_loop env r2 k2 0 None"
      "url r2 = ''https://engine.prod.bria-api.com/v1/text-to-image/hd/'' @ hd_model_version a"
      using generate_hd_image_valid [of "a\<lparr>hd_api_key := k2\<rparr>" env] by auto
    from r1(2) r2(2) have "url r1 = url r2" by simp
    from hd_loop_mask_only [OF assms this, of env 0 None] r1(1) r2(1)
    show ?thesis by simp
  next
    case False
    then show ?thesis by (simp add: generate_hd_image_def)
  qed
  from er hd show ?thesis by blast
qed

theorem credential_only_masked_witness:
  "mask_key (Some ''abcd1234efgh'') = mask_key (Some ''abcd9876543efgh'')
   \<and> prints (fst (erase_foreground ''abcd1234efgh'' None (Some ''https://img.test/a.png'')
                    False (repeated resp_429)))
     = prints (fst (erase_foreground ''abcd9876543efgh'' None (Some ''https://img.test/a.png'')
                      False (repeated resp_429)))
   \<and> snd (erase_foreground ''abcd1234efgh'' None (Some ''https://img.test/a.png'')
            False (repeated resp_429))
     = snd (erase_foreground ''abcd9876543efgh'' None (Some ''https://img.test/a.png'')
              False (repeated resp_429))"
proof -
  have m: "mask_key (Some ''abcd1234efgh'') = mask_key (Some ''abcd9876543efgh'')"
    by (simp add: mask_key_def truthy_def slice_to_def slice_from_def)
  from credential_only_masked [OF m, of None "Some ''https://img.test/a.png''" False
         "repeated resp_429"] m
  show ?thesis by blast
qed


theorem erase_foreground_logs_short_credential:
  "prints (fst (erase_foreground ''abcd'' None (Some ''https://img.test/a.png'') False
                  (repeated resp_200)))
     = [[PStr ((''[erase_foreground] Request '' @ arrow
                @ '' https://engine.prod.bria-api.com/v1/erase_foreground attempt=0 api_key='')
               @ ''abcd'' @ ''...abcd'')]]
   \<and> sublist ''abcd''
        ((''[erase_foreground] Request '' @ arrow
          @ '' https://engine.prod.bria-api.com/v1/erase_foreground attempt=0 api_key='')
         @ ''abcd'' @ ''...abcd'')"
proof -
  have "prints (fst (erase_foreground ''abcd'' None (Some ''https://img.test/a.png'') False
                  (repeated resp_200)))
     = [[PStr ((''[erase_foreground] Request '' @ arrow
                @ '' https://engine.prod.bria-api.com/v1/erase_foreground attempt=0 api_key='')
               @ ''abcd'' @ ''...abcd'')]]"
    by (simp add: erase_foreground_def Let_def truthy_def
          erase_foreground_loop.simps [of _ _ _ 0 None] post_json_def repeated_def
          resp_200_def raise_for_status_def mask_key_def slice_to_def slice_from_def
          str_nat.simps)
  moreover have "sublist ''abcd''
        ((''[erase_foreground] Request '' @ arrow
          @ '' https://engine.prod.bria-api.com/v1/erase_foreground attempt=0 api_key='')
         @ ''abcd'' @ ''...abcd'')"
    by (rule sublist_appendI)
  ultimately show ?thesis by blast
qed

text \<open>
  \<open>lifestyle_shot_by_text\<close> prints its header dictionary before the POST; the dictionary
  holds the credential itself under \<open>api_token\<close>.
\<close>

lemma lifestyle_prints_credential:
  "prints (fst (lifestyle_shot_by_text
      (ls_defaults ''abcd1234efgh'' [0x89, 0x50, 0x4E, 0x47] ''a kitchen'') (repeated resp_200)))
     ! 1 = [PStr ''Headers:'', PHeaders (ls_headers ''abcd1234efgh'')]
   \<and> ls_headers ''abcd1234efgh'' ''api_token'' = Some ''abcd1234efgh''"
  by (simp add: lifestyle_shot_by_text_def Let_def repeated_def resp_200_def
        raise_for_status_def ls_defaults_def)
     (simp add: ls_headers_def strip_def is_space_def)

end
